theory Spec2Isabelle
  imports Complex_Main "HOL-Library.Word" "HOL-Library.AList" "HOL-Library.Sublist"
begin

section \<open>Common types\<close>

text \<open>
  Task ids, trace ids and timestamps are \<open>uint64_t\<close>: 64-bit words, whose arithmetic
  wraps. A \<open>ResourceID_t\<close> and a \<open>JobID_t\<close> are 128-bit UUIDs. The fatal exits of the
  code (\<open>CHECK\<close>, \<open>CHECK_NOTNULL\<close>, \<open>LOG(FATAL)\<close>, a null pointer dereference) are
  values of \<open>error\<close>; a function that can take one of them returns \<open>error + 'a\<close>.
\<close>

type_synonym u64 = "64 word"
type_synonym TaskID_t = "64 word"
type_synonym ResourceID_t = "128 word"
type_synonym JobID_t = "128 word"

datatype error = CheckFailed | LogFatal | NullPointer

text \<open>
  The protobuf descriptors, with the fields the code reads. An optional protobuf field
  (\<open>has_friendly_name\<close>, \<open>has_name\<close>) is an \<open>option\<close>. The job states are declared in
  \<open>job_desc.proto\<close>; the code tests three of them.
\<close>

datatype JobState = NEW | CREATED | RUNNING | COMPLETED | FAILED | ABORTED | UNKNOWN

record ResourceDescriptor =
  friendly_name :: "string option"
  uuid :: string

record JobDescriptor =
  name :: "string option"
  state :: JobState

record TaskDescriptor =
  uid :: TaskID_t
  index :: u64

section \<open>Map helpers (misc/map-util.h)\<close>

text \<open>
  The C++ maps are association lists: a lookup is \<open>map_of\<close>, an assignment through
  \<open>operator[]\<close> is \<open>AList.update\<close>, and the order of the list stands for the iteration
  order of the container.
\<close>

text \<open>Modelled from the spec: \<open>FindOrNull\<close> of misc/map-util.h, which is not among the
  sources: the value stored under the key, or nothing.\<close>
definition FindOrNull :: "('k \<times> 'v) list \<Rightarrow> 'k \<Rightarrow> 'v option" where
  "FindOrNull m k = map_of m k"

text \<open>Modelled from the spec: \<open>FindWithDefault\<close> of misc/map-util.h, which is not among
  the sources: the value stored under the key, or the default.\<close>
definition FindWithDefault :: "('k \<times> 'v) list \<Rightarrow> 'k \<Rightarrow> 'v \<Rightarrow> 'v" where
  "FindWithDefault m k d = (case map_of m k of None \<Rightarrow> d | Some v \<Rightarrow> v)"

text \<open>Modelled from the spec: \<open>InsertIfNotPresent\<close> of misc/map-util.h, which is not
  among the sources: inserts when the key is new and says whether it did.\<close>
definition InsertIfNotPresent :: "('k \<times> 'v) list \<Rightarrow> 'k \<Rightarrow> 'v \<Rightarrow> ('k \<times> 'v) list \<times> bool" where
  "InsertIfNotPresent m k v =
     (case map_of m k of None \<Rightarrow> (m @ [(k, v)], True) | Some _ \<Rightarrow> (m, False))"

text \<open>
  Reading \<open>m[k]\<close> from a standard map: a missing key is inserted with the default value
  first, so the read also returns the map.
\<close>
definition subscript :: "('k \<times> 'v) list \<Rightarrow> 'k \<Rightarrow> 'v \<Rightarrow> 'v \<times> ('k \<times> 'v) list" where
  "subscript m k d = (case map_of m k of None \<Rightarrow> (d, m @ [(k, d)]) | Some v \<Rightarrow> (v, m))"

section \<open>The trace emitter (misc/generate_trace.cc)\<close>

record TaskRuntime =
  task_id :: u64
  start_time :: u64
  num_runs :: u64
  last_schedule_time :: u64
  total_runtime :: u64
  runtime :: u64

text \<open>
  The rows written with \<open>fprintf\<close>, one tuple per line, with the fields in the order of
  the format string; the constant empty columns are left out.
\<close>

type_synonym machine_event_row = "u64 \<times> u64 \<times> int"
type_synonym scheduler_event_row = "u64 \<times> u64 \<times> u64 \<times> u64 \<times> string"
type_synonym task_event_row = "u64 \<times> u64 \<times> u64 \<times> int"
type_synonym task_runtime_row = "u64 \<times> u64 \<times> u64 \<times> u64 \<times> u64 \<times> u64 \<times> u64"
type_synonym jobs_num_tasks_row = "u64 \<times> u64"

record GenerateTrace =
  task_to_job :: "(TaskID_t \<times> u64) list"
  job_num_tasks :: "(u64 \<times> u64) list"
  task_to_runtime :: "(TaskID_t \<times> TaskRuntime) list"
  machine_events :: "machine_event_row list"
  scheduler_events :: "scheduler_event_row list"
  task_events :: "task_event_row list"
  task_runtime_events :: "task_runtime_row list"
  jobs_num_tasks :: "jobs_num_tasks_row list"

text \<open>
  What the emitter takes from outside this file: the flag, \<open>boost::hash_combine\<close> on a
  string and on a \<open>uint64_t\<close>, and \<open>boost::lexical_cast<uint64_t>\<close>, which fails on a
  malformed number. The current timestamp of the time manager is an argument of each
  operation.
\<close>

record trace_env =
  FLAGS_generate_trace :: bool
  hash_combine_string :: "u64 \<Rightarrow> string \<Rightarrow> u64"
  hash_combine_u64 :: "u64 \<Rightarrow> u64 \<Rightarrow> u64"
  lexical_cast :: "string \<Rightarrow> u64 option"

definition GenerateTrace_init :: GenerateTrace where
  "GenerateTrace_init =
     \<lparr>task_to_job = [], job_num_tasks = [], task_to_runtime = [], machine_events = [],
      scheduler_events = [], task_events = [], task_runtime_events = [],
      jobs_num_tasks = []\<rparr>"

definition simulator_machine_prefix :: string where
  "simulator_machine_prefix = ''firmament_simulation_machine_''"

definition simulator_job_prefix :: string where
  "simulator_job_prefix = ''firmament_simulation_job_''"

definition GetMachineId :: "trace_env \<Rightarrow> ResourceDescriptor \<Rightarrow> error + u64" where
  "GetMachineId env rd =
     (case friendly_name rd of
        Some fn \<Rightarrow>
          if prefix simulator_machine_prefix fn then
            (case lexical_cast env (drop (length simulator_machine_prefix) fn) of
               Some machine_id \<Rightarrow> Inr machine_id
             | None \<Rightarrow> Inl LogFatal)
          else Inr (hash_combine_string env 42 (uuid rd))
      | None \<Rightarrow> Inr (hash_combine_string env 42 (uuid rd)))"

definition AddMachine :: "trace_env \<Rightarrow> u64 \<Rightarrow> ResourceDescriptor \<Rightarrow> GenerateTrace \<Rightarrow> error + GenerateTrace" where
  "AddMachine env timestamp rd s =
     (if FLAGS_generate_trace env then
        (case GetMachineId env rd of
           Inl e \<Rightarrow> Inl e
         | Inr machine_id \<Rightarrow>
             Inr (s\<lparr>machine_events := machine_events s @ [(timestamp, machine_id, 0)]\<rparr>))
      else Inr s)"

definition RemoveMachine :: "trace_env \<Rightarrow> u64 \<Rightarrow> ResourceDescriptor \<Rightarrow> GenerateTrace \<Rightarrow> error + GenerateTrace" where
  "RemoveMachine env timestamp rd s =
     (if FLAGS_generate_trace env then
        (case GetMachineId env rd of
           Inl e \<Rightarrow> Inl e
         | Inr machine_id \<Rightarrow>
             Inr (s\<lparr>machine_events := machine_events s @ [(timestamp, machine_id, 1)]\<rparr>))
      else Inr s)"

text \<open>
  \<open>SchedulerRun\<close> gets the three runtimes of the scheduler statistics and the string of
  the DIMACS change statistics.
\<close>

definition SchedulerRun :: "trace_env \<Rightarrow> u64 \<Rightarrow> u64 \<Rightarrow> u64 \<Rightarrow> u64 \<Rightarrow> string \<Rightarrow> GenerateTrace \<Rightarrow> error + GenerateTrace" where
  "SchedulerRun env timestamp scheduler_runtime algorithm_runtime total_rt stats_string s =
     (if FLAGS_generate_trace env then
        Inr (s\<lparr>scheduler_events := scheduler_events s @
               [(timestamp, scheduler_runtime, algorithm_runtime, total_rt, stats_string)]\<rparr>)
      else Inr s)"

text \<open>
  The job id and the trace task id of a submitted task, lines 149 to 172 of
  \<open>TaskSubmitted\<close>. In the branch of a job that does
  not come from the simulator the code combines the seed with the local variable
  \<open>job_id\<close> itself, which has no value yet at that point: \<open>job_id_uninit\<close> is whatever
  the variable holds.
\<close>

definition TaskSubmitted_ids :: "trace_env \<Rightarrow> u64 \<Rightarrow> JobDescriptor \<Rightarrow> TaskDescriptor \<Rightarrow> error + (u64 \<times> u64)" where
  "TaskSubmitted_ids env job_id_uninit jd td =
     (case name jd of
        Some n \<Rightarrow>
          if prefix simulator_job_prefix n then
            (case lexical_cast env (drop (length simulator_job_prefix) n) of
               Some job_id \<Rightarrow> Inr (job_id, index td)
             | None \<Rightarrow> Inl LogFatal)
          else Inr (hash_combine_u64 env 42 job_id_uninit, uid td)
      | None \<Rightarrow> Inr (hash_combine_u64 env 42 job_id_uninit, uid td))"

text \<open>
  \<open>TaskSubmitted\<close> declares \<open>TaskRuntime task_runtime;\<close> and assigns four of its six
  fields. The struct is declared in misc/generate_trace.h, which is not among the
  sources, so the object as its declaration leaves it is the argument
  \<open>task_runtime_decl\<close>: \<open>total_runtime\<close> and \<open>runtime\<close> keep its values.
\<close>

definition TaskSubmitted :: "trace_env \<Rightarrow> u64 \<Rightarrow> u64 \<Rightarrow> TaskRuntime \<Rightarrow> JobDescriptor \<Rightarrow> TaskDescriptor \<Rightarrow> GenerateTrace \<Rightarrow> error + GenerateTrace" where
  "TaskSubmitted env timestamp job_id_uninit task_runtime_decl jd td s =
     (if FLAGS_generate_trace env then
        (case TaskSubmitted_ids env job_id_uninit jd td of
           Inl e \<Rightarrow> Inl e
         | Inr (job_id, trace_task_id) \<Rightarrow>
             let (t2j, inserted) = InsertIfNotPresent (task_to_job s) (uid td) job_id;
                 jnt = (if inserted then
                          (case FindOrNull (job_num_tasks s) job_id of
                             None \<Rightarrow> fst (InsertIfNotPresent (job_num_tasks s) job_id 1)
                           | Some num_tasks \<Rightarrow>
                               AList.update job_id (num_tasks + 1) (job_num_tasks s))
                        else job_num_tasks s);
                 te = task_events s @ [(timestamp, job_id, trace_task_id, 0)];
                 t2r = (case FindOrNull (task_to_runtime s) (uid td) of
                          None \<Rightarrow>
                            fst (InsertIfNotPresent (task_to_runtime s) (uid td)
                                   (task_runtime_decl\<lparr>task_id := trace_task_id,
                                      start_time := timestamp, num_runs := 0,
                                      last_schedule_time := 0\<rparr>))
                        | Some _ \<Rightarrow> task_to_runtime s)
             in Inr (s\<lparr>task_to_job := t2j, job_num_tasks := jnt, task_events := te,
                       task_to_runtime := t2r\<rparr>))
      else Inr s)"

text \<open>
  The four terminal events share their shape: both lookups are checked, the row is
  written, and the runtime record is updated in place.
\<close>

definition TaskCompleted :: "trace_env \<Rightarrow> u64 \<Rightarrow> TaskID_t \<Rightarrow> GenerateTrace \<Rightarrow> error + GenerateTrace" where
  "TaskCompleted env timestamp t s =
     (if FLAGS_generate_trace env then
        (case FindOrNull (task_to_job s) t of
           None \<Rightarrow> Inl CheckFailed
         | Some job_id \<Rightarrow>
             (case FindOrNull (task_to_runtime s) t of
                None \<Rightarrow> Inl CheckFailed
              | Some tr \<Rightarrow>
                  Inr (s\<lparr>task_events := task_events s @ [(timestamp, job_id, task_id tr, 4)],
                         task_to_runtime := AList.update t
                           (tr\<lparr>total_runtime := total_runtime tr + (timestamp - last_schedule_time tr),
                               runtime := timestamp - last_schedule_time tr\<rparr>)
                           (task_to_runtime s)\<rparr>)))
      else Inr s)"

definition TaskEvicted :: "trace_env \<Rightarrow> u64 \<Rightarrow> TaskID_t \<Rightarrow> GenerateTrace \<Rightarrow> error + GenerateTrace" where
  "TaskEvicted env timestamp t s =
     (if FLAGS_generate_trace env then
        (case FindOrNull (task_to_job s) t of
           None \<Rightarrow> Inl CheckFailed
         | Some job_id \<Rightarrow>
             (case FindOrNull (task_to_runtime s) t of
                None \<Rightarrow> Inl CheckFailed
              | Some tr \<Rightarrow>
                  Inr (s\<lparr>task_events := task_events s @ [(timestamp, job_id, task_id tr, 2)],
                         task_to_runtime := AList.update t
                           (tr\<lparr>total_runtime := total_runtime tr + (timestamp - last_schedule_time tr)\<rparr>)
                           (task_to_runtime s)\<rparr>)))
      else Inr s)"

definition TaskFailed :: "trace_env \<Rightarrow> u64 \<Rightarrow> TaskID_t \<Rightarrow> GenerateTrace \<Rightarrow> error + GenerateTrace" where
  "TaskFailed env timestamp t s =
     (if FLAGS_generate_trace env then
        (case FindOrNull (task_to_job s) t of
           None \<Rightarrow> Inl CheckFailed
         | Some job_id \<Rightarrow>
             (case FindOrNull (task_to_runtime s) t of
                None \<Rightarrow> Inl CheckFailed
              | Some tr \<Rightarrow>
                  Inr (s\<lparr>task_events := task_events s @ [(timestamp, job_id, task_id tr, 3)],
                         task_to_runtime := AList.update t
                           (tr\<lparr>total_runtime := total_runtime tr + (timestamp - last_schedule_time tr)\<rparr>)
                           (task_to_runtime s)\<rparr>)))
      else Inr s)"

definition TaskKilled :: "trace_env \<Rightarrow> u64 \<Rightarrow> TaskID_t \<Rightarrow> GenerateTrace \<Rightarrow> error + GenerateTrace" where
  "TaskKilled env timestamp t s =
     (if FLAGS_generate_trace env then
        (case FindOrNull (task_to_job s) t of
           None \<Rightarrow> Inl CheckFailed
         | Some job_id \<Rightarrow>
             (case FindOrNull (task_to_runtime s) t of
                None \<Rightarrow> Inl CheckFailed
              | Some tr \<Rightarrow>
                  Inr (s\<lparr>task_events := task_events s @ [(timestamp, job_id, task_id tr, 5)],
                         task_to_runtime := AList.update t
                           (tr\<lparr>total_runtime := total_runtime tr + (timestamp - last_schedule_time tr)\<rparr>)
                           (task_to_runtime s)\<rparr>)))
      else Inr s)"

definition TaskScheduled :: "trace_env \<Rightarrow> u64 \<Rightarrow> TaskID_t \<Rightarrow> ResourceID_t \<Rightarrow> GenerateTrace \<Rightarrow> error + GenerateTrace" where
  "TaskScheduled env timestamp t res_id s =
     (if FLAGS_generate_trace env then
        (case FindOrNull (task_to_job s) t of
           None \<Rightarrow> Inl CheckFailed
         | Some job_id \<Rightarrow>
             (case FindOrNull (task_to_runtime s) t of
                None \<Rightarrow> Inl CheckFailed
              | Some tr \<Rightarrow>
                  Inr (s\<lparr>task_events := task_events s @ [(timestamp, job_id, task_id tr, 1)],
                         task_to_runtime := AList.update t
                           (tr\<lparr>num_runs := num_runs tr + 1, last_schedule_time := timestamp\<rparr>)
                           (task_to_runtime s)\<rparr>)))
      else Inr s)"

text \<open>
  The destructor writes one runtime row per entry of \<open>task_to_runtime\<close>, with the job id
  read through the pointer that \<open>FindOrNull\<close> returns and never checked, and one row per
  entry of \<open>job_num_tasks\<close>.
\<close>

fun runtime_rows :: "(TaskID_t \<times> u64) list \<Rightarrow> (TaskID_t \<times> TaskRuntime) list \<Rightarrow> error + task_runtime_row list" where
  "runtime_rows t2j [] = Inr []"
| "runtime_rows t2j ((t, tr) # rest) =
     (case FindOrNull t2j t of
        None \<Rightarrow> Inl NullPointer
      | Some job_id \<Rightarrow>
          (case runtime_rows t2j rest of
             Inl e \<Rightarrow> Inl e
           | Inr rows \<Rightarrow>
               Inr ((job_id, t, job_id, start_time tr, total_runtime tr, runtime tr, num_runs tr)
                    # rows)))"

definition GenerateTrace_destroy :: "trace_env \<Rightarrow> GenerateTrace \<Rightarrow> error + GenerateTrace" where
  "GenerateTrace_destroy env s =
     (if FLAGS_generate_trace env then
        (case runtime_rows (task_to_job s) (task_to_runtime s) of
           Inl e \<Rightarrow> Inl e
         | Inr rows \<Rightarrow>
             Inr (s\<lparr>task_runtime_events := task_runtime_events s @ rows,
                    jobs_num_tasks := jobs_num_tasks s @ job_num_tasks s\<rparr>))
      else Inr s)"

section \<open>The flow scheduler (scheduling/flow/flow_scheduler.cc)\<close>

subsection \<open>Selecting the cost model\<close>

datatype CostModelType =
  COST_MODEL_TRIVIAL | COST_MODEL_RANDOM | COST_MODEL_SJF | COST_MODEL_QUINCY
  | COST_MODEL_WHARE | COST_MODEL_COCO | COST_MODEL_OCTOPUS | COST_MODEL_VOID
  | COST_MODEL_SIMULATED_QUINCY

text \<open>Modelled from the spec: the values of the enumerators of \<open>CostModelType\<close>, declared
  in scheduling/flow/cost_models.h, which is not among the sources: they are numbered as
  the help string of the flag \<open>flow_scheduling_cost_model\<close> and the spec list them.\<close>
fun CostModelType_value :: "CostModelType \<Rightarrow> int" where
  "CostModelType_value COST_MODEL_TRIVIAL = 0"
| "CostModelType_value COST_MODEL_RANDOM = 1"
| "CostModelType_value COST_MODEL_SJF = 2"
| "CostModelType_value COST_MODEL_QUINCY = 3"
| "CostModelType_value COST_MODEL_WHARE = 4"
| "CostModelType_value COST_MODEL_COCO = 5"
| "CostModelType_value COST_MODEL_OCTOPUS = 6"
| "CostModelType_value COST_MODEL_VOID = 7"
| "CostModelType_value COST_MODEL_SIMULATED_QUINCY = 8"

text \<open>The cost model classes that the constructor creates.\<close>

datatype CostModel =
  TrivialCostModel | RandomCostModel | CocoCostModel | SJFCostModel | QuincyCostModel
  | WhareMapCostModel | OctopusCostModel

text \<open>
  The \<open>switch\<close> of the constructor \<open>FlowScheduler::FlowScheduler\<close> over the flag, its
  cases in the order of the source; the \<open>default\<close> case is \<open>LOG(FATAL)\<close>.
\<close>

definition FlowScheduler_cost_model :: "int \<Rightarrow> error + CostModel" where
  "FlowScheduler_cost_model flag =
     (if flag = CostModelType_value COST_MODEL_TRIVIAL then Inr TrivialCostModel
      else if flag = CostModelType_value COST_MODEL_RANDOM then Inr RandomCostModel
      else if flag = CostModelType_value COST_MODEL_COCO then Inr CocoCostModel
      else if flag = CostModelType_value COST_MODEL_SJF then Inr SJFCostModel
      else if flag = CostModelType_value COST_MODEL_QUINCY then Inr QuincyCostModel
      else if flag = CostModelType_value COST_MODEL_WHARE then Inr WhareMapCostModel
      else if flag = CostModelType_value COST_MODEL_OCTOPUS then Inr OctopusCostModel
      else Inl LogFatal)"

subsection \<open>The scheduler's state and what it calls\<close>

text \<open>
  The members of the base class \<open>EventDrivenScheduler\<close> that the flow scheduler reads. A
  \<open>ResourceStatus\<close> stands for its descriptor. The flow graph is the list of the calls
  made to it, in order.
\<close>

record EventDrivenScheduler =
  job_map :: "(JobID_t \<times> JobDescriptor) list"
  task_map :: "(TaskID_t \<times> TaskDescriptor) list"
  resource_map :: "(ResourceID_t \<times> ResourceDescriptor) list"
  task_bindings :: "(TaskID_t \<times> ResourceID_t) list"

datatype flow_graph_call =
  FG_TaskScheduled TaskID_t ResourceID_t
  | FG_TaskEvicted TaskID_t ResourceID_t
  | FG_TaskMigrated TaskID_t ResourceID_t ResourceID_t
  | FG_UpdateTimeDependentCosts "(JobID_t \<times> JobDescriptor) list"

record FlowScheduler =
  base :: EventDrivenScheduler
  flow_graph :: "flow_graph_call list"
  last_updated_time_dependent_costs :: u64

text \<open>
  What the scheduler takes from outside this file: \<open>ResourceIDFromString\<close>, the flag of
  the update frequency (an \<open>int64\<close>), and the three handlers of the base class, which
  work on the members of the base class. The descriptors are passed by value: the base
  handlers are taken to return and not to change the uid of a task or the uuid of a
  resource.
\<close>

record scheduler_env =
  ResourceIDFromString :: "string \<Rightarrow> ResourceID_t"
  FLAGS_time_dependent_cost_update_frequency :: int
  EDS_HandleTaskPlacement :: "TaskDescriptor \<Rightarrow> ResourceDescriptor \<Rightarrow> EventDrivenScheduler \<Rightarrow> EventDrivenScheduler"
  EDS_HandleTaskEviction :: "TaskDescriptor \<Rightarrow> ResourceDescriptor \<Rightarrow> EventDrivenScheduler \<Rightarrow> EventDrivenScheduler"
  EDS_HandleTaskMigration :: "TaskDescriptor \<Rightarrow> ResourceDescriptor \<Rightarrow> EventDrivenScheduler \<Rightarrow> EventDrivenScheduler"

subsection \<open>The task handlers\<close>

definition HandleTaskPlacement :: "scheduler_env \<Rightarrow> TaskDescriptor \<Rightarrow> ResourceDescriptor \<Rightarrow> FlowScheduler \<Rightarrow> FlowScheduler" where
  "HandleTaskPlacement env td rd s =
     s\<lparr>base := EDS_HandleTaskPlacement env td rd (base s),
       flow_graph := flow_graph s @
         [FG_TaskScheduled (uid td) (ResourceIDFromString env (uuid rd))]\<rparr>"

definition HandleTaskEviction :: "scheduler_env \<Rightarrow> TaskDescriptor \<Rightarrow> ResourceDescriptor \<Rightarrow> FlowScheduler \<Rightarrow> FlowScheduler" where
  "HandleTaskEviction env td rd s =
     s\<lparr>base := EDS_HandleTaskEviction env td rd (base s),
       flow_graph := flow_graph s @
         [FG_TaskEvicted (uid td) (ResourceIDFromString env (uuid rd))]\<rparr>"

definition HandleTaskMigration :: "scheduler_env \<Rightarrow> TaskDescriptor \<Rightarrow> ResourceDescriptor \<Rightarrow> FlowScheduler \<Rightarrow> error + FlowScheduler" where
  "HandleTaskMigration env td rd s =
     (case FindOrNull (task_bindings (base s)) (uid td) of
        None \<Rightarrow> Inl CheckFailed
      | Some old_res_id \<Rightarrow>
          Inr (s\<lparr>base := EDS_HandleTaskMigration env td rd (base s),
                 flow_graph := flow_graph s @
                   [FG_TaskMigrated (uid td) old_res_id
                      (ResourceIDFromString env (uuid rd))]\<rparr>))"

subsection \<open>Applying the scheduling deltas\<close>

datatype ChangeType = NOOP | PLACE | PREEMPT | MIGRATE

record SchedulingDelta =
  delta_type :: ChangeType
  delta_task_id :: TaskID_t
  delta_resource_id :: string
  delta_actioned :: bool

text \<open>
  The loop of \<open>ApplySchedulingDeltas\<close>: both lookups are checked for every delta, also
  for a \<open>NOOP\<close>, before its type is looked at. The deltas are changed in place, so the
  loop returns them with the count. The four types are all that the enumeration has, so
  the last \<open>else\<close> of the source has no case here.
\<close>

definition cons_delta :: "SchedulingDelta \<Rightarrow> error + (u64 \<times> SchedulingDelta list \<times> FlowScheduler) \<Rightarrow> error + (u64 \<times> SchedulingDelta list \<times> FlowScheduler)" where
  "cons_delta d r =
     (case r of Inl e \<Rightarrow> Inl e | Inr (n, ds, s) \<Rightarrow> Inr (n, d # ds, s))"

fun ApplySchedulingDeltas_loop :: "scheduler_env \<Rightarrow> SchedulingDelta list \<Rightarrow> u64 \<Rightarrow> FlowScheduler \<Rightarrow> error + (u64 \<times> SchedulingDelta list \<times> FlowScheduler)" where
  "ApplySchedulingDeltas_loop env [] num_scheduled s = Inr (num_scheduled, [], s)"
| "ApplySchedulingDeltas_loop env (d # ds) num_scheduled s =
     (case FindOrNull (task_map (base s)) (delta_task_id d) of
        None \<Rightarrow> Inl CheckFailed
      | Some td \<Rightarrow>
          (case FindOrNull (resource_map (base s))
                  (ResourceIDFromString env (delta_resource_id d)) of
             None \<Rightarrow> Inl CheckFailed
           | Some rd \<Rightarrow>
               (case delta_type d of
                  NOOP \<Rightarrow> cons_delta d (ApplySchedulingDeltas_loop env ds num_scheduled s)
                | PLACE \<Rightarrow>
                    cons_delta (d\<lparr>delta_actioned := True\<rparr>)
                      (ApplySchedulingDeltas_loop env ds (num_scheduled + 1)
                         (HandleTaskPlacement env td rd s))
                | PREEMPT \<Rightarrow>
                    cons_delta (d\<lparr>delta_actioned := True\<rparr>)
                      (ApplySchedulingDeltas_loop env ds num_scheduled
                         (HandleTaskEviction env td rd s))
                | MIGRATE \<Rightarrow>
                    (case HandleTaskMigration env td rd s of
                       Inl e \<Rightarrow> Inl e
                     | Inr s' \<Rightarrow>
                         cons_delta (d\<lparr>delta_actioned := True\<rparr>)
                           (ApplySchedulingDeltas_loop env ds num_scheduled s')))))"

definition ApplySchedulingDeltas :: "scheduler_env \<Rightarrow> SchedulingDelta list \<Rightarrow> FlowScheduler \<Rightarrow> error + (u64 \<times> SchedulingDelta list \<times> FlowScheduler)" where
  "ApplySchedulingDeltas env deltas s = ApplySchedulingDeltas_loop env deltas 0 s"

text \<open>What the claim about the deltas speaks of: the number of \<open>PLACE\<close> deltas, and
  the list with the flag of every delta that is not a \<open>NOOP\<close> set.\<close>

definition num_place :: "SchedulingDelta list \<Rightarrow> nat" where
  "num_place ds = length (filter (\<lambda>d. delta_type d = PLACE) ds)"

definition mark_actioned :: "SchedulingDelta \<Rightarrow> SchedulingDelta" where
  "mark_actioned d = (if delta_type d = NOOP then d else d\<lparr>delta_actioned := True\<rparr>)"

text \<open>
  The checks that one delta has to pass in the state in which the loop reaches it: the
  two \<open>CHECK_NOTNULL\<close> of lines 142 and 143, for a delta of any type, and for a
  \<open>MIGRATE\<close> the \<open>CHECK_NOTNULL\<close> of the old binding in \<open>HandleTaskMigration\<close>.
\<close>

definition delta_checks :: "scheduler_env \<Rightarrow> SchedulingDelta \<Rightarrow> FlowScheduler \<Rightarrow> bool" where
  "delta_checks env d s =
     (case FindOrNull (task_map (base s)) (delta_task_id d) of
        None \<Rightarrow> False
      | Some td \<Rightarrow>
          (case FindOrNull (resource_map (base s))
                  (ResourceIDFromString env (delta_resource_id d)) of
             None \<Rightarrow> False
           | Some rd \<Rightarrow>
               (case delta_type d of
                  MIGRATE \<Rightarrow> FindOrNull (task_bindings (base s)) (uid td) \<noteq> None
                | _ \<Rightarrow> True)))"

text \<open>
  The state that the handler of one delta leaves, for a delta that passes its checks (a
  delta that does not pass them leaves no state: the program has stopped).
\<close>

definition apply_delta :: "scheduler_env \<Rightarrow> SchedulingDelta \<Rightarrow> FlowScheduler \<Rightarrow> FlowScheduler" where
  "apply_delta env d s =
     (case FindOrNull (task_map (base s)) (delta_task_id d) of
        None \<Rightarrow> s
      | Some td \<Rightarrow>
          (case FindOrNull (resource_map (base s))
                  (ResourceIDFromString env (delta_resource_id d)) of
             None \<Rightarrow> s
           | Some rd \<Rightarrow>
               (case delta_type d of
                  NOOP \<Rightarrow> s
                | PLACE \<Rightarrow> HandleTaskPlacement env td rd s
                | PREEMPT \<Rightarrow> HandleTaskEviction env td rd s
                | MIGRATE \<Rightarrow>
                    (case HandleTaskMigration env td rd s of
                       Inl e \<Rightarrow> s
                     | Inr s' \<Rightarrow> s'))))"

text \<open>
  Every delta of a list passes its checks in the state that the deltas before it have
  left, and the state that the whole list leaves.
\<close>

fun deltas_checks :: "scheduler_env \<Rightarrow> SchedulingDelta list \<Rightarrow> FlowScheduler \<Rightarrow> bool" where
  "deltas_checks env [] s = True"
| "deltas_checks env (d # ds) s =
     (delta_checks env d s \<and> deltas_checks env ds (apply_delta env d s))"

fun deltas_state :: "scheduler_env \<Rightarrow> SchedulingDelta list \<Rightarrow> FlowScheduler \<Rightarrow> FlowScheduler" where
  "deltas_state env [] s = s"
| "deltas_state env (d # ds) s = deltas_state env ds (apply_delta env d s)"

subsection \<open>The time-dependent costs in RunSchedulingIteration\<close>

text \<open>
  The loop over \<open>job_map_\<close> that collects the jobs that are still active, pushing each at
  the back of \<open>job_vec\<close>; an entry of the vector points to an entry of the map.
\<close>

fun collect_active_jobs :: "(JobID_t \<times> JobDescriptor) list \<Rightarrow> (JobID_t \<times> JobDescriptor) list \<Rightarrow> (JobID_t \<times> JobDescriptor) list" where
  "collect_active_jobs [] job_vec = job_vec"
| "collect_active_jobs (it # rest) job_vec =
     collect_active_jobs rest
       (if state (snd it) \<noteq> COMPLETED \<and> state (snd it) \<noteq> FAILED \<and> state (snd it) \<noteq> ABORTED
        then job_vec @ [it] else job_vec)"

text \<open>
  Lines 355 to 377 of \<open>RunSchedulingIteration\<close>, the step before the solver runs:
  \<open>cur_time\<close> is the value of \<open>GetCurrentTimestamp()\<close>. The flag is cast to \<open>uint64_t\<close>
  and the subtraction is one of \<open>uint64_t\<close>: it wraps.
\<close>

definition RunSchedulingIteration_time_dependent :: "scheduler_env \<Rightarrow> u64 \<Rightarrow> FlowScheduler \<Rightarrow> FlowScheduler" where
  "RunSchedulingIteration_time_dependent env cur_time s =
     (if last_updated_time_dependent_costs s \<le>
           cur_time - word_of_int (FLAGS_time_dependent_cost_update_frequency env)
      then s\<lparr>flow_graph := flow_graph s @
                [FG_UpdateTimeDependentCosts (collect_active_jobs (job_map (base s)) [])],
             last_updated_time_dependent_costs := cur_time\<rparr>
      else s)"

section \<open>The simulated Quincy cost model (scheduling/flow/sim/simulated_quincy_cost_model.cc)\<close>

text \<open>
  An equivalence class (here: a rack) is a \<open>uint64_t\<close>. The types \<open>NumBlocks_t\<close>,
  \<open>FileID_t\<close>, \<open>Cost_t\<close> and \<open>ResourceFrequencyMap_t\<close> are declared in headers that are
  not among the sources: a file id is a 64-bit word and a number of blocks a natural
  number. A cost is a signed integer of fixed width: a \<open>Cost_t\<close> is a 64-bit word, read
  as a two's complement number (\<open>sint\<close>), so the product of a number of blocks and a
  transfer cost and the sum of two such products wrap around.
  Where the source gives a local variable a width (\<open>uint32_t frequency\<close>,
  \<open>uint64_t frequency\<close>) the model reduces modulo that width. The theorems about the
  costs take the task's blocks to number less than \<open>2 ^ 32\<close>, so that no count
  overflows whatever the widths are. An unordered map or set is a list in the order
  of insertion; the order in which the program iterates over one is not specified, and
  the theorems speak of membership and of lookups only.
\<close>

type_synonym EquivClass_t = "64 word"
type_synonym FileID_t = "64 word"
type_synonym NumBlocks_t = nat
type_synonym Cost_t = "64 word"

text \<open>
  The simulated file system, as far as the cost model reads it: the number of blocks of
  a file and the machines that hold it (a \<open>ResourceSet_t\<close>, in its iteration order).
\<close>

record SimulatedDFS =
  GetNumBlocks :: "FileID_t \<Rightarrow> NumBlocks_t"
  GetMachines :: "FileID_t \<Rightarrow> ResourceID_t list"

record SimulatedQuincyCostModel =
  proportion_machine_preferred :: rat
  proportion_rack_preferred :: rat
  core_transfer_cost :: Cost_t
  tor_transfer_cost :: Cost_t
  filesystem :: SimulatedDFS
  machine_to_rack_map :: "(ResourceID_t \<times> EquivClass_t) list"
  file_map :: "(TaskID_t \<times> FileID_t list) list"
  preferred_machine_map :: "(TaskID_t \<times> (ResourceID_t \<times> Cost_t) list) list"
  preferred_rack_map :: "(TaskID_t \<times> (EquivClass_t \<times> Cost_t) list) list"
  cluster_aggregator_cost :: "(TaskID_t \<times> Cost_t) list"

text \<open>
  The proportion of blocks is a \<open>double\<close>: the quotient of two counts, which are
  converted exactly. The quotient of the two numbers is rounded to a \<open>double\<close>; the
  rounding is the argument \<open>round_double\<close>, so what is proved holds whatever the
  rounding is. A division by zero has two results: \<open>0 / 0\<close> is not a number and
  compares false with everything, \<open>n / 0\<close> is infinite. The two thresholds are finite
  \<open>double\<close>s, that is, rational numbers.
\<close>

datatype proportion = Finite rat | Infinite | NotANumber

definition double_div :: "(rat \<Rightarrow> rat) \<Rightarrow> nat \<Rightarrow> nat \<Rightarrow> proportion" where
  "double_div round_double n d =
     (if d = 0 then (if n = 0 then NotANumber else Infinite)
      else Finite (round_double (of_nat n / of_nat d)))"

fun double_ge :: "proportion \<Rightarrow> rat \<Rightarrow> bool" where
  "double_ge (Finite q) y = (y \<le> q)"
| "double_ge Infinite y = True"
| "double_ge NotANumber y = False"

fun double_gt :: "proportion \<Rightarrow> rat \<Rightarrow> bool" where
  "double_gt (Finite q) y = (y < q)"
| "double_gt Infinite y = True"
| "double_gt NotANumber y = False"

subsection \<open>ComputeCostsAndPreferredSet\<close>

text \<open>
  The inner loop over the machines of one file: the frequency of the machine grows by
  the blocks of the file, and the rack of the machine joins the set \<open>racks\<close>.
\<close>

fun count_machines :: "NumBlocks_t \<Rightarrow> ResourceID_t list \<Rightarrow>
    (ResourceID_t \<times> nat) list \<times> (ResourceID_t \<times> EquivClass_t) list \<times> EquivClass_t list \<Rightarrow>
    (ResourceID_t \<times> nat) list \<times> (ResourceID_t \<times> EquivClass_t) list \<times> EquivClass_t list" where
  "count_machines num_blocks [] acc = acc"
| "count_machines num_blocks (machine # rest) (machine_frequency, m2r, racks) =
     (let frequency = FindWithDefault machine_frequency machine 0 mod 2 ^ 32;
          machine_frequency' = AList.update machine (frequency + num_blocks) machine_frequency;
          (rack, m2r') = subscript m2r machine 0
      in count_machines num_blocks rest (machine_frequency', m2r', List.insert rack racks))"

text \<open>The loop over the set \<open>racks\<close> of one file.\<close>

fun count_racks :: "NumBlocks_t \<Rightarrow> EquivClass_t list \<Rightarrow> (EquivClass_t \<times> nat) list \<Rightarrow> (EquivClass_t \<times> nat) list" where
  "count_racks num_blocks [] rack_frequency = rack_frequency"
| "count_racks num_blocks (rack # rest) rack_frequency =
     (let frequency = FindWithDefault rack_frequency rack 0
      in count_racks num_blocks rest
           (AList.update rack ((frequency + num_blocks) mod 2 ^ 64) rack_frequency))"

text \<open>The loop over the file set of the task.\<close>

fun count_files :: "SimulatedDFS \<Rightarrow> FileID_t list \<Rightarrow>
    (ResourceID_t \<times> nat) list \<times> (EquivClass_t \<times> nat) list \<times> NumBlocks_t \<times> (ResourceID_t \<times> EquivClass_t) list \<Rightarrow>
    (ResourceID_t \<times> nat) list \<times> (EquivClass_t \<times> nat) list \<times> NumBlocks_t \<times> (ResourceID_t \<times> EquivClass_t) list" where
  "count_files fs [] acc = acc"
| "count_files fs (file_id # rest) (machine_frequency, rack_frequency, total_num_blocks, m2r) =
     (let num_blocks = GetNumBlocks fs file_id;
          (machine_frequency', m2r', racks) =
             count_machines num_blocks (GetMachines fs file_id) (machine_frequency, m2r, [])
      in count_files fs rest
           (machine_frequency', count_racks num_blocks racks rack_frequency,
            total_num_blocks + num_blocks, m2r'))"

text \<open>
  The loop over \<open>machine_frequency\<close> that fills the preferred machines of the task. The
  two subtractions are of unsigned numbers; lemma \<open>local_le_rack\<close> below shows that
  neither goes below zero.
\<close>

fun preferred_machines_loop :: "(rat \<Rightarrow> rat) \<Rightarrow> rat \<Rightarrow> Cost_t \<Rightarrow> Cost_t \<Rightarrow> NumBlocks_t \<Rightarrow> (ResourceID_t \<times> nat) list \<Rightarrow>
    (ResourceID_t \<times> Cost_t) list \<times> (EquivClass_t \<times> nat) list \<times> (ResourceID_t \<times> EquivClass_t) list \<Rightarrow>
    (ResourceID_t \<times> Cost_t) list \<times> (EquivClass_t \<times> nat) list \<times> (ResourceID_t \<times> EquivClass_t) list" where
  "preferred_machines_loop round_double delta core tor total_num_blocks [] acc = acc"
| "preferred_machines_loop round_double delta core tor total_num_blocks ((machine, num_local_blocks) # rest)
       (preferred_machines, rack_frequency, m2r) =
     (if double_ge (double_div round_double num_local_blocks total_num_blocks) delta then
        (let (rack, m2r') = subscript m2r machine 0;
             (rack_blocks, rack_frequency') = subscript rack_frequency rack 0;
             num_rack_blocks = rack_blocks - num_local_blocks;
             num_core_blocks = total_num_blocks - num_rack_blocks - num_local_blocks;
             cost = of_nat num_core_blocks * core + of_nat num_rack_blocks * tor
         in preferred_machines_loop round_double delta core tor total_num_blocks rest
              (AList.update machine cost preferred_machines, rack_frequency', m2r'))
      else preferred_machines_loop round_double delta core tor total_num_blocks rest
             (preferred_machines, rack_frequency, m2r))"

text \<open>The loop over \<open>rack_frequency\<close> that fills the preferred racks of the task.\<close>

fun preferred_racks_loop :: "(rat \<Rightarrow> rat) \<Rightarrow> rat \<Rightarrow> Cost_t \<Rightarrow> Cost_t \<Rightarrow> NumBlocks_t \<Rightarrow> (EquivClass_t \<times> nat) list \<Rightarrow>
    (EquivClass_t \<times> Cost_t) list \<Rightarrow> (EquivClass_t \<times> Cost_t) list" where
  "preferred_racks_loop round_double delta core tor total_num_blocks [] preferred_racks = preferred_racks"
| "preferred_racks_loop round_double delta core tor total_num_blocks ((rack, num_rack_blocks) # rest)
       preferred_racks =
     (if double_gt (double_div round_double num_rack_blocks total_num_blocks) delta then
        (let num_core_blocks = total_num_blocks - num_rack_blocks;
             cost = of_nat num_core_blocks * core + of_nat num_rack_blocks * tor
         in preferred_racks_loop round_double delta core tor total_num_blocks rest
              (AList.update rack cost preferred_racks))
      else preferred_racks_loop round_double delta core tor total_num_blocks rest preferred_racks)"

definition ComputeCostsAndPreferredSet :: "(rat \<Rightarrow> rat) \<Rightarrow> TaskID_t \<Rightarrow> SimulatedQuincyCostModel \<Rightarrow> SimulatedQuincyCostModel" where
  "ComputeCostsAndPreferredSet round_double t s =
     (let (file_set, fm) = subscript (file_map s) t [];
          (machine_frequency, rack_frequency, total_num_blocks, m2r) =
             count_files (filesystem s) file_set ([], [], 0, machine_to_rack_map s);
          (preferred_machines, rack_frequency', m2r') =
             preferred_machines_loop round_double (proportion_machine_preferred s) (core_transfer_cost s)
               (tor_transfer_cost s) total_num_blocks machine_frequency ([], rack_frequency, m2r);
          preferred_racks =
             preferred_racks_loop round_double (proportion_rack_preferred s) (core_transfer_cost s)
               (tor_transfer_cost s) total_num_blocks rack_frequency' []
      in s\<lparr>file_map := fm,
           machine_to_rack_map := m2r',
           preferred_machine_map := AList.update t preferred_machines (preferred_machine_map s),
           preferred_rack_map := AList.update t preferred_racks (preferred_rack_map s),
           cluster_aggregator_cost :=
             AList.update t (of_nat total_num_blocks * core_transfer_cost s)
               (cluster_aggregator_cost s)\<rparr>)"

subsection \<open>Adding a task, removing a machine, and the queries\<close>

text \<open>
  \<open>BuildTaskFileSet\<close> stores the files that \<open>SampleFiles\<close> of the file system draws;
  the draw is the argument \<open>sampled\<close>.
\<close>

definition BuildTaskFileSet :: "TaskID_t \<Rightarrow> FileID_t list \<Rightarrow> SimulatedQuincyCostModel \<Rightarrow> SimulatedQuincyCostModel" where
  "BuildTaskFileSet t sampled s = s\<lparr>file_map := AList.update t sampled (file_map s)\<rparr>"

definition AddTask :: "(rat \<Rightarrow> rat) \<Rightarrow> TaskID_t \<Rightarrow> FileID_t list \<Rightarrow> SimulatedQuincyCostModel \<Rightarrow> SimulatedQuincyCostModel" where
  "AddTask round_double t sampled s =
     ComputeCostsAndPreferredSet round_double t (BuildTaskFileSet t sampled s)"

text \<open>
  \<open>RemoveMachine\<close> of the cost model (the name \<open>RemoveMachine\<close> is the trace emitter's
  here). What the file system does on the removal is the argument \<open>dfs_remove\<close>. The
  maps of the tasks are reached through pointers, so the erasure is seen in
  \<open>preferred_machine_map_\<close>.
\<close>

definition CostModel_RemoveMachine :: "(ResourceID_t \<Rightarrow> SimulatedDFS \<Rightarrow> SimulatedDFS) \<Rightarrow> ResourceID_t \<Rightarrow> SimulatedQuincyCostModel \<Rightarrow> SimulatedQuincyCostModel" where
  "CostModel_RemoveMachine dfs_remove res_id s =
     s\<lparr>filesystem := dfs_remove res_id (filesystem s),
       preferred_machine_map :=
         map (\<lambda>mapping. (fst mapping, AList.delete res_id (snd mapping)))
           (preferred_machine_map s)\<rparr>"

text \<open>
  \<open>GetTaskPreferenceArcs\<close> dereferences the pointer stored for the task: for a task with
  no entry \<open>operator[]\<close> yields a null pointer.
\<close>

definition GetTaskPreferenceArcs :: "TaskID_t \<Rightarrow> SimulatedQuincyCostModel \<Rightarrow> error + ResourceID_t list" where
  "GetTaskPreferenceArcs t s =
     (case map_of (preferred_machine_map s) t of
        None \<Rightarrow> Inl NullPointer
      | Some preferred_machines \<Rightarrow> Inr (map fst preferred_machines))"


definition TaskToResourceNodeCost :: "TaskID_t \<Rightarrow> ResourceID_t \<Rightarrow> SimulatedQuincyCostModel \<Rightarrow> error + (Cost_t \<times> SimulatedQuincyCostModel)" where
  "TaskToResourceNodeCost t resource_id s =
     (case map_of (preferred_machine_map s) t of
        None \<Rightarrow> Inl NullPointer
      | Some cost_map \<Rightarrow>
          (let (cost, cost_map') = subscript cost_map resource_id 0
           in Inr (cost, s\<lparr>preferred_machine_map :=
                             AList.update t cost_map' (preferred_machine_map s)\<rparr>)))"

definition TaskToEquivClassAggregator :: "TaskID_t \<Rightarrow> EquivClass_t \<Rightarrow> SimulatedQuincyCostModel \<Rightarrow> Cost_t \<times> SimulatedQuincyCostModel" where
  "TaskToEquivClassAggregator t tec s =
     (let (preferred_racks, prm) = subscript (preferred_rack_map s) t [];
          (cost, preferred_racks') = subscript preferred_racks tec 0
      in (cost, s\<lparr>preferred_rack_map := AList.update t preferred_racks' prm\<rparr>))"


subsection \<open>The block counts of a file set\<close>

text \<open>
  The counts that the spec names, written as sums over the file set: all blocks, the
  blocks of the files that a machine holds, and the blocks of the files that a rack
  holds on at least one of its machines. The rack of a machine is read from
  \<open>machine_to_rack_map_\<close> through \<open>operator[]\<close>, so a machine with no entry is in rack 0.
\<close>

definition rack_of :: "(ResourceID_t \<times> EquivClass_t) list \<Rightarrow> ResourceID_t \<Rightarrow> EquivClass_t" where
  "rack_of m2r machine = FindWithDefault m2r machine 0"

definition total_blocks :: "SimulatedDFS \<Rightarrow> FileID_t list \<Rightarrow> nat" where
  "total_blocks fs files = sum_list (map (GetNumBlocks fs) files)"

definition local_blocks :: "SimulatedDFS \<Rightarrow> FileID_t list \<Rightarrow> ResourceID_t \<Rightarrow> nat" where
  "local_blocks fs files machine =
     sum_list (map (GetNumBlocks fs) (filter (\<lambda>f. machine \<in> set (GetMachines fs f)) files))"

definition rack_blocks :: "SimulatedDFS \<Rightarrow> (ResourceID_t \<times> EquivClass_t) list \<Rightarrow> FileID_t list \<Rightarrow> EquivClass_t \<Rightarrow> nat" where
  "rack_blocks fs m2r files rack =
     sum_list (map (GetNumBlocks fs)
       (filter (\<lambda>f. rack \<in> rack_of m2r ` set (GetMachines fs f)) files))"

text \<open>
  The three costs of the spec for a task with the file set \<open>files\<close>, as integers with
  no bound: for a machine, the blocks outside its rack at the core transfer cost and the
  blocks in its rack that are on other machines at the rack transfer cost; for a rack,
  the blocks outside it at the core transfer cost and the blocks in it at the rack
  transfer cost; for the cluster, all blocks at the core transfer cost.
\<close>

definition machine_cost :: "SimulatedQuincyCostModel \<Rightarrow> FileID_t list \<Rightarrow> ResourceID_t \<Rightarrow> int" where
  "machine_cost s files machine =
     (int (total_blocks (filesystem s) files)
        - int (rack_blocks (filesystem s) (machine_to_rack_map s) files
                 (rack_of (machine_to_rack_map s) machine))) * sint (core_transfer_cost s)
     + (int (rack_blocks (filesystem s) (machine_to_rack_map s) files
                 (rack_of (machine_to_rack_map s) machine))
        - int (local_blocks (filesystem s) files machine)) * sint (tor_transfer_cost s)"

definition rack_cost :: "SimulatedQuincyCostModel \<Rightarrow> FileID_t list \<Rightarrow> EquivClass_t \<Rightarrow> int" where
  "rack_cost s files rack =
     (int (total_blocks (filesystem s) files)
        - int (rack_blocks (filesystem s) (machine_to_rack_map s) files rack))
       * sint (core_transfer_cost s)
     + int (rack_blocks (filesystem s) (machine_to_rack_map s) files rack)
       * sint (tor_transfer_cost s)"

definition cluster_cost :: "SimulatedQuincyCostModel \<Rightarrow> FileID_t list \<Rightarrow> int" where
  "cluster_cost s files =
     int (total_blocks (filesystem s) files) * sint (core_transfer_cost s)"

text \<open>A cost fits a \<open>Cost_t\<close> when it is a 64-bit two's complement number.\<close>

definition fits_Cost_t :: "int \<Rightarrow> bool" where
  "fits_Cost_t c \<longleftrightarrow> - (2 ^ 63) \<le> c \<and> c < 2 ^ 63"

section \<open>Example inputs\<close>

text \<open>
  Concrete inputs on which the theorems below are instantiated. The base handlers of the
  example bind a placed task, unbind an evicted task and rebind a migrated task; the example scheduler knows the tasks 7 and 8 and the resources 1 and
  2, with task 7 bound to resource 1.
\<close>

definition example_trace_env :: "bool \<Rightarrow> trace_env" where
  "example_trace_env flag =
     \<lparr>FLAGS_generate_trace = flag,
      hash_combine_string = (\<lambda>seed v. seed + of_nat (length v)),
      hash_combine_u64 = (\<lambda>seed v. seed + v),
      lexical_cast = (\<lambda>str. None)\<rparr>"

definition example_task_runtime :: TaskRuntime where
  "example_task_runtime =
     \<lparr>task_id = 42, start_time = 1000, num_runs = 0, last_schedule_time = 0,
      total_runtime = 0, runtime = 0\<rparr>"

definition example_trace :: GenerateTrace where
  "example_trace =
     GenerateTrace_init
       \<lparr>task_to_job := [(42, 5)], job_num_tasks := [(5, 1)],
        task_to_runtime := [(42, example_task_runtime)],
        task_events := [(1000, 5, 42, 0)]\<rparr>"

definition example_job :: JobDescriptor where
  "example_job = \<lparr>name = Some ''job_a'', state = RUNNING\<rparr>"

definition example_task :: TaskDescriptor where
  "example_task = \<lparr>uid = 42, index = 0\<rparr>"

definition example_env :: scheduler_env where
  "example_env =
     \<lparr>ResourceIDFromString = (\<lambda>u. if u = ''r1'' then 1 else if u = ''r2'' then 2 else 0),
      FLAGS_time_dependent_cost_update_frequency = 10000000,
      EDS_HandleTaskPlacement =
        (\<lambda>td rd b. b\<lparr>task_bindings :=
           AList.update (uid td) (if uuid rd = ''r1'' then 1 else 2) (task_bindings b)\<rparr>),
      EDS_HandleTaskEviction =
        (\<lambda>td rd b. b\<lparr>task_bindings := AList.delete (uid td) (task_bindings b)\<rparr>),
      EDS_HandleTaskMigration =
        (\<lambda>td rd b. b\<lparr>task_bindings :=
           AList.update (uid td) (if uuid rd = ''r1'' then 1 else 2) (task_bindings b)\<rparr>)\<rparr>"

definition example_base :: EventDrivenScheduler where
  "example_base =
     \<lparr>job_map = [(1, \<lparr>name = Some ''a'', state = RUNNING\<rparr>),
                 (2, \<lparr>name = Some ''b'', state = COMPLETED\<rparr>),
                 (3, \<lparr>name = None, state = CREATED\<rparr>)],
      task_map = [(7, \<lparr>uid = 7, index = 0\<rparr>), (8, \<lparr>uid = 8, index = 1\<rparr>)],
      resource_map = [(1, \<lparr>friendly_name = None, uuid = ''r1''\<rparr>),
                      (2, \<lparr>friendly_name = None, uuid = ''r2''\<rparr>)],
      task_bindings = [(7, 1)]\<rparr>"

definition example_scheduler :: FlowScheduler where
  "example_scheduler =
     \<lparr>base = example_base, flow_graph = [], last_updated_time_dependent_costs = 0\<rparr>"

definition example_deltas :: "SchedulingDelta list" where
  "example_deltas =
     [\<lparr>delta_type = PLACE, delta_task_id = 8, delta_resource_id = ''r2'', delta_actioned = False\<rparr>,
      \<lparr>delta_type = NOOP, delta_task_id = 7, delta_resource_id = ''r1'', delta_actioned = False\<rparr>,
      \<lparr>delta_type = PREEMPT, delta_task_id = 8, delta_resource_id = ''r2'', delta_actioned = False\<rparr>,
      \<lparr>delta_type = MIGRATE, delta_task_id = 7, delta_resource_id = ''r2'', delta_actioned = False\<rparr>]"

text \<open>
  Two file systems for the cost model. In the first, file 1 has 4 blocks on machine 1 and
  file 2 has 6 blocks on machine 2. In the second, file 1 has 10 blocks, all on machine
  1. The example cost model charges 10 for a block across racks and 1 for a block
  within a rack.
\<close>

definition example_dfs :: SimulatedDFS where
  "example_dfs =
     \<lparr>GetNumBlocks = (\<lambda>f. if f = 1 then 4 else if f = 2 then 6 else 0),
      GetMachines = (\<lambda>f. if f = 1 then [1] else if f = 2 then [2] else [])\<rparr>"

definition example_dfs_local :: SimulatedDFS where
  "example_dfs_local =
     \<lparr>GetNumBlocks = (\<lambda>f. if f = 1 then 10 else 0),
      GetMachines = (\<lambda>f. [1])\<rparr>"

definition example_cost_model :: "SimulatedDFS \<Rightarrow> (ResourceID_t \<times> EquivClass_t) list \<Rightarrow> rat \<Rightarrow> SimulatedQuincyCostModel" where
  "example_cost_model dfs m2r delta =
     \<lparr>proportion_machine_preferred = delta,
      proportion_rack_preferred = delta,
      core_transfer_cost = 10,
      tor_transfer_cost = 1,
      filesystem = dfs,
      machine_to_rack_map = m2r,
      file_map = [],
      preferred_machine_map = [],
      preferred_rack_map = [],
      cluster_aggregator_cost = []\<rparr>"

text \<open>Two racks of one machine each, and one rack of four machines.\<close>

definition example_two_racks :: "(ResourceID_t \<times> EquivClass_t) list" where
  "example_two_racks = [(1, 0), (2, 1)]"

definition example_one_rack :: "(ResourceID_t \<times> EquivClass_t) list" where
  "example_one_rack = [(1, 0), (2, 0), (3, 0), (4, 0)]"

section \<open>Theorems: the trace emitter\<close>

text \<open>
  C10. With the flag \<open>generate_trace\<close> off, each of the nine public operations returns
  the emitter exactly as it was: the three accumulated maps and every output stream are
  unchanged, and no fatal check is reached.
\<close>

theorem trace_disabled_frame:
  "\<not> FLAGS_generate_trace env \<Longrightarrow>
     AddMachine env ts rd s = Inr s \<and>
     RemoveMachine env ts rd s = Inr s \<and>
     SchedulerRun env ts a b c str s = Inr s \<and>
     TaskSubmitted env ts j0 tr0 jd td s = Inr s \<and>
     TaskScheduled env ts t r s = Inr s \<and>
     TaskCompleted env ts t s = Inr s \<and>
     TaskEvicted env ts t s = Inr s \<and>
     TaskFailed env ts t s = Inr s \<and>
     TaskKilled env ts t s = Inr s"
  by (simp add: AddMachine_def RemoveMachine_def SchedulerRun_def TaskSubmitted_def
      TaskScheduled_def TaskCompleted_def TaskEvicted_def TaskFailed_def TaskKilled_def)

theorem trace_disabled_frame_witness:
  "\<not> FLAGS_generate_trace (example_trace_env False) \<and>
   AddMachine (example_trace_env False) 2000 \<lparr>friendly_name = None, uuid = ''r1''\<rparr>
     example_trace = Inr example_trace \<and>
   RemoveMachine (example_trace_env False) 2000 \<lparr>friendly_name = None, uuid = ''r1''\<rparr>
     example_trace = Inr example_trace \<and>
   SchedulerRun (example_trace_env False) 2000 1 2 3 ''stats'' example_trace
     = Inr example_trace \<and>
   TaskSubmitted (example_trace_env False) 2000 0 example_task_runtime example_job
     example_task example_trace = Inr example_trace \<and>
   TaskScheduled (example_trace_env False) 2000 42 1 example_trace = Inr example_trace \<and>
   TaskCompleted (example_trace_env False) 2000 42 example_trace = Inr example_trace \<and>
   TaskEvicted (example_trace_env False) 2000 42 example_trace = Inr example_trace \<and>
   TaskFailed (example_trace_env False) 2000 42 example_trace = Inr example_trace \<and>
   TaskKilled (example_trace_env False) 2000 42 example_trace = Inr example_trace"
proof -
  have h: "\<not> FLAGS_generate_trace (example_trace_env False)"
    by (simp add: example_trace_env_def)
  show ?thesis
    using h
      trace_disabled_frame [OF h, of 2000 "\<lparr>friendly_name = None, uuid = ''r1''\<rparr>"
        example_trace 1 2 3 "''stats''" 0 example_task_runtime example_job example_task 42 1]
    by simp
qed

lemma runtime_updates:
  assumes "FLAGS_generate_trace env"
    and "FindOrNull (task_to_job s) t = Some j"
    and "FindOrNull (task_to_runtime s) t = Some tr"
  shows "(\<exists>s'. TaskScheduled env ts t r s = Inr s' \<and>
            FindOrNull (task_to_runtime s') t =
              Some (tr\<lparr>num_runs := num_runs tr + 1, last_schedule_time := ts\<rparr>)) \<and>
         (\<exists>s'. TaskCompleted env ts t s = Inr s' \<and>
            FindOrNull (task_to_runtime s') t =
              Some (tr\<lparr>total_runtime := total_runtime tr + (ts - last_schedule_time tr),
                       runtime := ts - last_schedule_time tr\<rparr>)) \<and>
         (\<exists>s'. TaskEvicted env ts t s = Inr s' \<and>
            FindOrNull (task_to_runtime s') t =
              Some (tr\<lparr>total_runtime := total_runtime tr + (ts - last_schedule_time tr)\<rparr>)) \<and>
         (\<exists>s'. TaskFailed env ts t s = Inr s' \<and>
            FindOrNull (task_to_runtime s') t =
              Some (tr\<lparr>total_runtime := total_runtime tr + (ts - last_schedule_time tr)\<rparr>)) \<and>
         (\<exists>s'. TaskKilled env ts t s = Inr s' \<and>
            FindOrNull (task_to_runtime s') t =
              Some (tr\<lparr>total_runtime := total_runtime tr + (ts - last_schedule_time tr)\<rparr>))"
  using assms
  by (simp add: TaskScheduled_def TaskCompleted_def TaskEvicted_def TaskFailed_def
      TaskKilled_def FindOrNull_def update_conv')

lemma runtime_scenario:
  assumes "FLAGS_generate_trace env"
    and "uid td = 42"
    and "TaskSubmitted_ids env j0 jd td = Inr (job, tid)"
  shows "\<exists>s1 s2 s3 s4.
           TaskSubmitted env 1000 j0 tr0 jd td GenerateTrace_init = Inr s1 \<and>
           TaskScheduled env 1500 42 r s1 = Inr s2 \<and>
           TaskCompleted env 3500 42 s2 = Inr s3 \<and>
           GenerateTrace_destroy env s3 = Inr s4 \<and>
           task_runtime_events s4 = [(job, 42, job, 1000, total_runtime tr0 + 2000, 2000, 1)]"
  using assms
  by (simp add: TaskSubmitted_def TaskScheduled_def TaskCompleted_def GenerateTrace_destroy_def
      GenerateTrace_init_def FindOrNull_def InsertIfNotPresent_def)

text \<open>
  C3. The updates of the events are as claimed (lemma \<open>runtime_updates\<close>), but the
  runtime row of the scenario is not: \<open>TaskSubmitted\<close> assigns \<open>task_id\<close>, \<open>start_time\<close>,
  \<open>num_runs\<close> and \<open>last_schedule_time\<close> of the new record and never \<open>total_runtime\<close>, to
  which \<open>TaskCompleted\<close> then adds. For task 42 submitted to a fresh emitter at 1000,
  scheduled at 1500 and completed at 3500, the row written at shutdown has start time
  1000, runtime 2000 and one run, and as total runtime 2000 more than what the
  unassigned field held: 2007, not 2000, when it held 7.
\<close>

theorem trace_total_runtime_unassigned:
  "(\<exists>s1 s2 s3 s4.
      TaskSubmitted (example_trace_env True) 1000 5 tr0 example_job example_task
        GenerateTrace_init = Inr s1 \<and>
      TaskScheduled (example_trace_env True) 1500 42 r s1 = Inr s2 \<and>
      TaskCompleted (example_trace_env True) 3500 42 s2 = Inr s3 \<and>
      GenerateTrace_destroy (example_trace_env True) s3 = Inr s4 \<and>
      task_runtime_events s4 = [(47, 42, 47, 1000, total_runtime tr0 + 2000, 2000, 1)]) \<and>
   (\<exists>s1 s2 s3 s4.
      TaskSubmitted (example_trace_env True) 1000 5 (example_task_runtime\<lparr>total_runtime := 7\<rparr>)
        example_job example_task GenerateTrace_init = Inr s1 \<and>
      TaskScheduled (example_trace_env True) 1500 42 1 s1 = Inr s2 \<and>
      TaskCompleted (example_trace_env True) 3500 42 s2 = Inr s3 \<and>
      GenerateTrace_destroy (example_trace_env True) s3 = Inr s4 \<and>
      task_runtime_events s4 = [(47, 42, 47, 1000, 2007, 2000, 1)])"
proof -
  have h1: "FLAGS_generate_trace (example_trace_env True)"
    by (simp add: example_trace_env_def)
  have h4: "uid example_task = 42"
    by (simp add: example_task_def)
  have h5: "TaskSubmitted_ids (example_trace_env True) 5 example_job example_task = Inr (47, 42)"
    by (simp add: TaskSubmitted_ids_def example_trace_env_def simulator_job_prefix_def
        example_job_def example_task_def)
  have t: "total_runtime (example_task_runtime\<lparr>total_runtime := 7\<rparr>) + 2000 = 2007"
    by simp
  show ?thesis
    using runtime_scenario [OF h1 h4 h5, of tr0 r]
      runtime_scenario [OF h1 h4 h5, of "example_task_runtime\<lparr>total_runtime := 7\<rparr>" 1]
    unfolding t by blast
qed

text \<open>
  C9. For a job whose name does not begin with the simulation prefix, the id that the
  code records is the combination of the seed 42 with the unassigned local variable
  \<open>job_id\<close>: the name of the job is not an input of it. Two jobs with different names
  get the same id when the variable holds the same value, and one job gets two ids when
  it holds two values. For a machine with no simulation prefix the id is the
  combination of 42 with the uuid of the descriptor.
\<close>

theorem job_id_ignores_name:
  "TaskSubmitted_ids env j0 \<lparr>name = Some ''job_a'', state = RUNNING\<rparr> td
     = Inr (hash_combine_u64 env 42 j0, uid td) \<and>
   TaskSubmitted_ids env j0 \<lparr>name = Some ''job_b'', state = RUNNING\<rparr> td
     = Inr (hash_combine_u64 env 42 j0, uid td) \<and>
   TaskSubmitted_ids (example_trace_env True) 0 \<lparr>name = Some ''job_a'', state = RUNNING\<rparr> td
     \<noteq> TaskSubmitted_ids (example_trace_env True) 1 \<lparr>name = Some ''job_a'', state = RUNNING\<rparr> td \<and>
   GetMachineId env \<lparr>friendly_name = Some ''machine_a'', uuid = u\<rparr>
     = Inr (hash_combine_string env 42 u)"
  by (simp add: TaskSubmitted_ids_def GetMachineId_def simulator_job_prefix_def
      simulator_machine_prefix_def example_trace_env_def)

section \<open>Theorems: the flow scheduler\<close>

text \<open>
  C1. For a task that is bound when \<open>HandleTaskMigration\<close> is entered, the call returns,
  and the flow graph is told that the task migrated from the resource it was bound to
  at entry, whatever the handler of the base class does to the bindings in between.
\<close>

theorem migration_from_old_binding:
  "FindOrNull (task_bindings (base s)) (uid td) = Some old_res_id \<Longrightarrow>
     HandleTaskMigration env td rd s =
       Inr (s\<lparr>base := EDS_HandleTaskMigration env td rd (base s),
              flow_graph := flow_graph s @
                [FG_TaskMigrated (uid td) old_res_id (ResourceIDFromString env (uuid rd))]\<rparr>)"
  by (simp add: HandleTaskMigration_def)

theorem migration_from_old_binding_witness:
  "FindOrNull (task_bindings (base example_scheduler)) 7 = Some 1 \<and>
   (\<exists>s'. HandleTaskMigration example_env \<lparr>uid = 7, index = 0\<rparr>
            \<lparr>friendly_name = None, uuid = ''r2''\<rparr> example_scheduler = Inr s' \<and>
      flow_graph s' = [FG_TaskMigrated 7 1 2] \<and>
      FindOrNull (task_bindings (base s')) 7 = Some 2)"
proof -
  have h: "FindOrNull (task_bindings (base example_scheduler)) (uid \<lparr>uid = 7, index = 0\<rparr>) = Some 1"
    by (simp add: example_scheduler_def example_base_def FindOrNull_def)
  show ?thesis
    using h migration_from_old_binding [OF h, of example_env
        "\<lparr>friendly_name = None, uuid = ''r2''\<rparr>"]
    by (simp add: example_scheduler_def example_base_def example_env_def FindOrNull_def)
qed

lemma cons_delta_Inr [simp]: "cons_delta d (Inr (n, ds, s)) = Inr (n, d # ds, s)"
  by (simp add: cons_delta_def)

lemma cons_delta_Inl [simp]: "cons_delta d (Inl e) = Inl e"
  by (simp add: cons_delta_def)

text \<open>
  The loop, started with any count: it returns exactly when every delta passes its
  checks in the state in which it is reached, and then with the count grown by the
  number of \<open>PLACE\<close> deltas.
\<close>

lemma loop_characterisation:
  "ApplySchedulingDeltas_loop env ds n s =
     (if deltas_checks env ds s
      then Inr (n + of_nat (num_place ds), map mark_actioned ds, deltas_state env ds s)
      else Inl CheckFailed)"
proof (induction ds arbitrary: n s)
  case Nil
  then show ?case by (simp add: num_place_def)
next
  case (Cons d ds)
  show ?case
  proof (cases "FindOrNull (task_map (base s)) (delta_task_id d)")
    case None
    then show ?thesis by (simp add: delta_checks_def)
  next
    case (Some td)
    note td = this
    show ?thesis
    proof (cases "FindOrNull (resource_map (base s))
        (ResourceIDFromString env (delta_resource_id d))")
      case None
      with td show ?thesis by (simp add: delta_checks_def)
    next
      case (Some rd)
      note rd = this
      show ?thesis
      proof (cases "delta_type d")
        case NOOP
        with td rd show ?thesis
          by (simp add: Cons.IH delta_checks_def apply_delta_def num_place_def mark_actioned_def)
      next
        case PLACE
        with td rd show ?thesis
          by (simp add: Cons.IH delta_checks_def apply_delta_def num_place_def mark_actioned_def)
      next
        case PREEMPT
        with td rd show ?thesis
          by (simp add: Cons.IH delta_checks_def apply_delta_def num_place_def mark_actioned_def)
      next
        case MIGRATE
        note mg = this
        show ?thesis
        proof (cases "FindOrNull (task_bindings (base s)) (uid td)")
          case None
          with td rd mg show ?thesis
            by (simp add: delta_checks_def HandleTaskMigration_def)
        next
          case (Some old)
          with td rd mg show ?thesis
            by (simp add: Cons.IH delta_checks_def apply_delta_def num_place_def
                mark_actioned_def HandleTaskMigration_def)
        qed
      qed
    qed
  qed
qed

text \<open>
  C4, as stated, fails: a \<open>PLACE\<close> delta for task 9, which is not in the task map, makes
  \<open>ApplySchedulingDeltas\<close> stop in \<open>CHECK_NOTNULL\<close>; it returns no count, although the list
  has one \<open>PLACE\<close> delta.
\<close>

theorem ApplySchedulingDeltas_unknown_task_counterexample:
  "num_place [\<lparr>delta_type = PLACE, delta_task_id = 9, delta_resource_id = ''r1'',
               delta_actioned = False\<rparr>] = 1 \<and>
   ApplySchedulingDeltas example_env
     [\<lparr>delta_type = PLACE, delta_task_id = 9, delta_resource_id = ''r1'',
       delta_actioned = False\<rparr>] example_scheduler = Inl CheckFailed"
  by (simp add: num_place_def ApplySchedulingDeltas_def example_scheduler_def example_base_def
      FindOrNull_def)

text \<open>
  C4, amended. \<open>ApplySchedulingDeltas\<close> returns if and only if every delta of the list,
  a \<open>NOOP\<close> included, finds its task in the task map and its resource in the resource
  map, and every \<open>MIGRATE\<close> delta finds its task bound, each in the state that the
  handlers of the deltas before it have left, whatever the three handlers of the base
  class do. It then returns the number of \<open>PLACE\<close> deltas of the list (as a
  \<open>uint64_t\<close>), the deltas with the flag of every \<open>PLACE\<close>, \<open>PREEMPT\<close> and \<open>MIGRATE\<close>
  delta set and the \<open>NOOP\<close> deltas as they were, and the state that the handlers have
  left. Otherwise it stops in \<open>CHECK_NOTNULL\<close> and returns nothing.
\<close>

theorem ApplySchedulingDeltas_counts_places:
  "ApplySchedulingDeltas env ds s =
     (if deltas_checks env ds s
      then Inr (of_nat (num_place ds), map mark_actioned ds, deltas_state env ds s)
      else Inl CheckFailed)"
  by (simp add: ApplySchedulingDeltas_def loop_characterisation)

text \<open>
  On the example: the four deltas are applied, one of them a \<open>PLACE\<close>, although the
  eviction of task 8 unbinds it; and a list that evicts task 7 and then migrates it
  stops at the migration, since the task is no longer bound.
\<close>

theorem ApplySchedulingDeltas_counts_places_witness:
  "deltas_checks example_env example_deltas example_scheduler \<and>
   num_place example_deltas = 1 \<and>
   ApplySchedulingDeltas example_env example_deltas example_scheduler =
     Inr (1,
          [\<lparr>delta_type = PLACE, delta_task_id = 8, delta_resource_id = ''r2'', delta_actioned = True\<rparr>,
           \<lparr>delta_type = NOOP, delta_task_id = 7, delta_resource_id = ''r1'', delta_actioned = False\<rparr>,
           \<lparr>delta_type = PREEMPT, delta_task_id = 8, delta_resource_id = ''r2'', delta_actioned = True\<rparr>,
           \<lparr>delta_type = MIGRATE, delta_task_id = 7, delta_resource_id = ''r2'', delta_actioned = True\<rparr>],
          example_scheduler
            \<lparr>base := example_base\<lparr>task_bindings := [(7, 2)]\<rparr>,
             flow_graph := [FG_TaskScheduled 8 2, FG_TaskEvicted 8 2, FG_TaskMigrated 7 1 2]\<rparr>) \<and>
   ApplySchedulingDeltas example_env
     [\<lparr>delta_type = PREEMPT, delta_task_id = 7, delta_resource_id = ''r1'', delta_actioned = False\<rparr>,
      \<lparr>delta_type = MIGRATE, delta_task_id = 7, delta_resource_id = ''r2'', delta_actioned = False\<rparr>]
     example_scheduler = Inl CheckFailed"
proof -
  let ?evict_migrate =
    "[\<lparr>delta_type = PREEMPT, delta_task_id = 7, delta_resource_id = ''r1'', delta_actioned = False\<rparr>,
      \<lparr>delta_type = MIGRATE, delta_task_id = 7, delta_resource_id = ''r2'', delta_actioned = False\<rparr>]"
  have c1: "deltas_checks example_env example_deltas example_scheduler"
    by (simp add: example_deltas_def example_scheduler_def example_base_def example_env_def
        delta_checks_def apply_delta_def FindOrNull_def HandleTaskPlacement_def
        HandleTaskEviction_def HandleTaskMigration_def)
  have c2: "\<not> deltas_checks example_env ?evict_migrate example_scheduler"
    by (simp add: example_scheduler_def example_base_def example_env_def
        delta_checks_def apply_delta_def FindOrNull_def HandleTaskPlacement_def
        HandleTaskEviction_def HandleTaskMigration_def)
  have n: "num_place example_deltas = 1"
    by (simp add: num_place_def example_deltas_def)
  have m: "map mark_actioned example_deltas =
     [\<lparr>delta_type = PLACE, delta_task_id = 8, delta_resource_id = ''r2'', delta_actioned = True\<rparr>,
      \<lparr>delta_type = NOOP, delta_task_id = 7, delta_resource_id = ''r1'', delta_actioned = False\<rparr>,
      \<lparr>delta_type = PREEMPT, delta_task_id = 8, delta_resource_id = ''r2'', delta_actioned = True\<rparr>,
      \<lparr>delta_type = MIGRATE, delta_task_id = 7, delta_resource_id = ''r2'', delta_actioned = True\<rparr>]"
    by (simp add: mark_actioned_def example_deltas_def)
  have st: "deltas_state example_env example_deltas example_scheduler =
      example_scheduler
        \<lparr>base := example_base\<lparr>task_bindings := [(7, 2)]\<rparr>,
         flow_graph := [FG_TaskScheduled 8 2, FG_TaskEvicted 8 2, FG_TaskMigrated 7 1 2]\<rparr>"
    by (simp add: example_deltas_def example_scheduler_def example_base_def example_env_def
        apply_delta_def FindOrNull_def HandleTaskPlacement_def
        HandleTaskEviction_def HandleTaskMigration_def)
  show ?thesis
    using ApplySchedulingDeltas_counts_places [of example_env example_deltas example_scheduler]
      ApplySchedulingDeltas_counts_places [of example_env ?evict_migrate example_scheduler]
      c1 c2
    by (simp add: n m st)
qed

lemma collect_active_jobs_filter:
  "collect_active_jobs jm job_vec =
     job_vec @ filter (\<lambda>it. state (snd it) \<notin> {COMPLETED, FAILED, ABORTED}) jm"
  by (induction jm arbitrary: job_vec) auto

lemma word_le_sub_swap:
  fixes l c f :: "'a::len word"
  assumes "f \<le> c" and "l \<le> c"
  shows "(l \<le> c - f) = (f \<le> c - l)"
proof -
  have "unat (c - f) = unat c - unat f" using assms(1) by (simp add: unat_sub)
  moreover have "unat (c - l) = unat c - unat l" using assms(2) by (simp add: unat_sub)
  moreover have "unat f \<le> unat c" "unat l \<le> unat c"
    using assms by (simp_all add: word_le_nat_alt)
  ultimately show ?thesis by (auto simp: word_le_nat_alt)
qed

text \<open>
  What the step does, for any state: it calls \<open>UpdateTimeDependentCosts\<close> if and only
  if the time of the last update is at most the current time minus the frequency, the
  difference taken in \<open>uint64_t\<close> with wrap-around; the call gets exactly the jobs of the
  job map whose state is none of \<open>COMPLETED\<close>, \<open>FAILED\<close>, \<open>ABORTED\<close>, in the order of the
  map, and the time of the last update becomes the current time.
\<close>

lemma RunSchedulingIteration_time_dependent_result:
  "RunSchedulingIteration_time_dependent env cur_time s =
     (if last_updated_time_dependent_costs s \<le>
           cur_time - word_of_int (FLAGS_time_dependent_cost_update_frequency env)
      then s\<lparr>flow_graph := flow_graph s @
                [FG_UpdateTimeDependentCosts
                   (filter (\<lambda>it. state (snd it) \<notin> {COMPLETED, FAILED, ABORTED})
                      (job_map (base s)))],
             last_updated_time_dependent_costs := cur_time\<rparr>
      else s)"
  by (simp add: RunSchedulingIteration_time_dependent_def collect_active_jobs_filter)

text \<open>
  When neither the frequency nor the time of the last update exceeds the current time,
  the test of the code is the test of the spec: the current time minus the time of the
  last update is at least the frequency.
\<close>

lemma time_dependent_test_without_underflow:
  "word_of_int (FLAGS_time_dependent_cost_update_frequency env) \<le> cur_time \<Longrightarrow>
   last_updated_time_dependent_costs s \<le> cur_time \<Longrightarrow>
     (last_updated_time_dependent_costs s \<le>
        cur_time - word_of_int (FLAGS_time_dependent_cost_update_frequency env)) =
     (word_of_int (FLAGS_time_dependent_cost_update_frequency env) \<le>
        cur_time - last_updated_time_dependent_costs s)"
  by (rule word_le_sub_swap)

text \<open>
  C5. The code tests \<open>last <= cur_time - frequency\<close>, and the subtraction of the
  unsigned numbers underflows while the scheduler has run for less than the frequency.
  With the costs last updated at time 3, the default frequency of 10000000 microseconds
  and the current time 5, only 2 microseconds have passed, so the test of the claim,
  \<open>5 - 3 >= 10000000\<close>, is false; yet \<open>5 - 10000000\<close> wraps around to a number above 3
  and the code updates the costs, and does so again at time 7. At time 20000000, with
  the costs last updated at time 0, the code and the claim agree. The jobs passed are
  those of the job map that are not completed, failed or aborted, as claimed.
\<close>

theorem time_dependent_update_underflow:
  "\<not> ((10000000 :: u64) \<le> 5 - 3) \<and>
   RunSchedulingIteration_time_dependent example_env 5
      (example_scheduler\<lparr>last_updated_time_dependent_costs := 3\<rparr>) =
     example_scheduler
       \<lparr>flow_graph :=
          [FG_UpdateTimeDependentCosts
             [(1, \<lparr>name = Some ''a'', state = RUNNING\<rparr>), (3, \<lparr>name = None, state = CREATED\<rparr>)]],
        last_updated_time_dependent_costs := 5\<rparr> \<and>
   \<not> ((10000000 :: u64) \<le> 7 - 5) \<and>
   flow_graph (RunSchedulingIteration_time_dependent example_env 7
      (RunSchedulingIteration_time_dependent example_env 5
         (example_scheduler\<lparr>last_updated_time_dependent_costs := 3\<rparr>))) =
     [FG_UpdateTimeDependentCosts
        [(1, \<lparr>name = Some ''a'', state = RUNNING\<rparr>), (3, \<lparr>name = None, state = CREATED\<rparr>)],
      FG_UpdateTimeDependentCosts
        [(1, \<lparr>name = Some ''a'', state = RUNNING\<rparr>), (3, \<lparr>name = None, state = CREATED\<rparr>)]] \<and>
   (10000000 :: u64) \<le> 20000000 - 0 \<and>
   RunSchedulingIteration_time_dependent example_env 20000000 example_scheduler =
     example_scheduler
       \<lparr>flow_graph :=
          [FG_UpdateTimeDependentCosts
             [(1, \<lparr>name = Some ''a'', state = RUNNING\<rparr>), (3, \<lparr>name = None, state = CREATED\<rparr>)]],
        last_updated_time_dependent_costs := 20000000\<rparr>"
  by (simp add: RunSchedulingIteration_time_dependent_def example_env_def
      example_scheduler_def example_base_def)

text \<open>
  C6. The constructor selects the cost model for the values 0 to 6 of the flag. For 7
  (\<open>VOID\<close>) and 8 (\<open>SIMULATED QUINCY\<close>), which the help string of the flag lists as
  values, the \<open>switch\<close> has no case: the constructor ends in \<open>LOG(FATAL)\<close>.
\<close>

theorem cost_model_selection:
  "FlowScheduler_cost_model 0 = Inr TrivialCostModel \<and>
   FlowScheduler_cost_model 1 = Inr RandomCostModel \<and>
   FlowScheduler_cost_model 2 = Inr SJFCostModel \<and>
   FlowScheduler_cost_model 3 = Inr QuincyCostModel \<and>
   FlowScheduler_cost_model 4 = Inr WhareMapCostModel \<and>
   FlowScheduler_cost_model 5 = Inr CocoCostModel \<and>
   FlowScheduler_cost_model 6 = Inr OctopusCostModel \<and>
   FlowScheduler_cost_model (CostModelType_value COST_MODEL_VOID) = Inl LogFatal \<and>
   FlowScheduler_cost_model (CostModelType_value COST_MODEL_SIMULATED_QUINCY) = Inl LogFatal \<and>
   FlowScheduler_cost_model 7 = Inl LogFatal \<and>
   FlowScheduler_cost_model 8 = Inl LogFatal \<and>
   FlowScheduler_cost_model 9 = Inl LogFatal \<and>
   FlowScheduler_cost_model (- 1) = Inl LogFatal"
  by (simp add: FlowScheduler_cost_model_def)

section \<open>Theorems: the simulated Quincy cost model\<close>

subsection \<open>The maps and the counting loops\<close>

text \<open>Reading and writing the association lists.\<close>

lemma FindWithDefault_update:
  "FindWithDefault (AList.update k v m) k' d = (if k' = k then v else FindWithDefault m k' d)"
  by (simp add: FindWithDefault_def update_conv')

lemma subscript_fst: "fst (subscript m k d) = FindWithDefault m k d"
  by (simp add: subscript_def FindWithDefault_def split: option.splits)

lemma FindWithDefault_subscript:
  "FindWithDefault (snd (subscript m k d)) k' d = FindWithDefault m k' d"
  by (auto simp: subscript_def FindWithDefault_def map_add_def split: option.splits)

lemma distinct_subscript:
  "distinct (map fst m) \<Longrightarrow> distinct (map fst (snd (subscript m k d)))"
  by (auto simp: subscript_def map_of_eq_None_iff split: option.splits)

text \<open>
  The loop over the machines of a file with no machine twice: every machine of the file
  gains the blocks of the file, the racks of these machines join the set, and the racks
  that \<open>machine_to_rack_map_\<close> gives stay the same.
\<close>

lemma count_machines_Cons:
  "count_machines nb (a # ms) (mf, m2r, racks) =
     count_machines nb ms
       (AList.update a (FindWithDefault mf a 0 mod 2 ^ 32 + nb) mf,
        snd (subscript m2r a 0), List.insert (rack_of m2r a) racks)"
  by (simp add: Let_def case_prod_beta subscript_fst rack_of_def del: One_nat_def)

lemma rack_of_subscript: "rack_of (snd (subscript m2r a 0)) m = rack_of m2r m"
  by (simp add: rack_of_def FindWithDefault_subscript)

lemma count_machines_props:
  assumes "count_machines nb ms (mf, m2r, racks) = (mf', m2r', racks')" and "distinct ms"
  shows "(\<forall>m. FindWithDefault mf' m 0 =
            (if m \<in> set ms then FindWithDefault mf m 0 mod 2 ^ 32 + nb
             else FindWithDefault mf m 0)) \<and>
         fst ` set mf' = fst ` set mf \<union> set ms \<and>
         (distinct (map fst mf) \<longrightarrow> distinct (map fst mf')) \<and>
         (\<forall>m. rack_of m2r' m = rack_of m2r m) \<and>
         set racks' = set racks \<union> rack_of m2r ` set ms \<and>
         (distinct racks \<longrightarrow> distinct racks')"
  using assms
proof (induction ms arbitrary: mf m2r racks)
  case Nil
  then show ?case by simp
next
  case (Cons a ms)
  let ?mf1 = "AList.update a (FindWithDefault mf a 0 mod 2 ^ 32 + nb) mf"
  let ?m2r1 = "snd (subscript m2r a 0)"
  let ?racks1 = "List.insert (rack_of m2r a) racks"
  have step: "count_machines nb ms (?mf1, ?m2r1, ?racks1) = (mf', m2r', racks')"
    using Cons.prems(1) by (simp only: count_machines_Cons)
  have d: "distinct ms" and a: "a \<notin> set ms" using Cons.prems(2) by simp_all
  note IH = Cons.IH[OF step d]
  have r1: "\<And>m. rack_of ?m2r1 m = rack_of m2r m" by (rule rack_of_subscript)
  have "\<forall>m. FindWithDefault mf' m 0 =
            (if m \<in> set (a # ms) then FindWithDefault mf m 0 mod 2 ^ 32 + nb
             else FindWithDefault mf m 0)"
    using IH a by (auto simp: FindWithDefault_update)
  moreover have "fst ` set mf' = fst ` set mf \<union> set (a # ms)"
    using IH by (auto simp: dom_update)
  moreover have "distinct (map fst mf) \<longrightarrow> distinct (map fst mf')"
    using IH by (simp add: distinct_update)
  moreover have "\<forall>m. rack_of m2r' m = rack_of m2r m"
    using IH r1 by simp
  moreover have "set racks' = set racks \<union> rack_of m2r ` set (a # ms)"
    using IH r1 by auto
  moreover have "distinct racks \<longrightarrow> distinct racks'"
    using IH by simp
  ultimately show ?case by blast
qed

text \<open>The loop over the racks of a file: every rack of the set gains the blocks of the
  file.\<close>

lemma count_racks_props:
  assumes "distinct rs"
  shows "(\<forall>r. FindWithDefault (count_racks nb rs rf) r 0 =
            (if r \<in> set rs then (FindWithDefault rf r 0 + nb) mod 2 ^ 64
             else FindWithDefault rf r 0)) \<and>
         fst ` set (count_racks nb rs rf) = fst ` set rf \<union> set rs \<and>
         (distinct (map fst rf) \<longrightarrow> distinct (map fst (count_racks nb rs rf)))"
  using assms
proof (induction rs arbitrary: rf)
  case Nil
  then show ?case by simp
next
  case (Cons a rs)
  let ?rf1 = "AList.update a ((FindWithDefault rf a 0 + nb) mod 2 ^ 64) rf"
  have eq: "count_racks nb (a # rs) rf = count_racks nb rs ?rf1"
    by (simp add: Let_def)
  have d: "distinct rs" and a: "a \<notin> set rs" using Cons.prems by simp_all
  note IH = Cons.IH[OF d, of ?rf1]
  show ?case unfolding eq
    using IH a by (auto simp: FindWithDefault_update dom_update distinct_update)
qed


text \<open>
  The loop over the file set computes the three counts, as long as the blocks number
  less than \<open>2 ^ 32\<close>: then no reduction modulo a width changes a value.
\<close>

lemma count_files_Cons:
  "count_files fs (f # files) (mf, rf, tot, m2r) =
     (case count_machines (GetNumBlocks fs f) (GetMachines fs f) (mf, m2r, []) of
        (mf1, m2r1, racks) \<Rightarrow>
          count_files fs files
            (mf1, count_racks (GetNumBlocks fs f) racks rf, tot + GetNumBlocks fs f, m2r1))"
  by (simp add: Let_def)

lemma rack_blocks_cong:
  assumes "\<And>m. rack_of a m = rack_of b m"
  shows "rack_blocks fs a files r = rack_blocks fs b files r"
proof -
  have "rack_of a = rack_of b" using assms by (rule ext)
  then show ?thesis by (simp add: rack_blocks_def)
qed

lemma total_blocks_Cons: "total_blocks fs (f # files) = GetNumBlocks fs f + total_blocks fs files"
  by (simp add: total_blocks_def)

lemma local_blocks_Cons:
  "local_blocks fs (f # files) m =
     (if m \<in> set (GetMachines fs f) then GetNumBlocks fs f else 0) + local_blocks fs files m"
  by (simp add: local_blocks_def)

lemma rack_blocks_Cons:
  "rack_blocks fs m2r (f # files) r =
     (if r \<in> rack_of m2r ` set (GetMachines fs f) then GetNumBlocks fs f else 0)
     + rack_blocks fs m2r files r"
  by (simp add: rack_blocks_def)

lemma count_files_props:
  assumes "count_files fs files (mf, rf, tot, m2r) = (mf', rf', tot', m2r')"
    and "\<forall>f\<in>set files. distinct (GetMachines fs f)"
    and "tot + total_blocks fs files < 2 ^ 32"
    and "\<forall>m. FindWithDefault mf m 0 \<le> tot"
    and "\<forall>r. FindWithDefault rf r 0 \<le> tot"
  shows "tot' = tot + total_blocks fs files \<and>
     (\<forall>m. FindWithDefault mf' m 0 = FindWithDefault mf m 0 + local_blocks fs files m) \<and>
     (\<forall>r. FindWithDefault rf' r 0 = FindWithDefault rf r 0 + rack_blocks fs m2r files r) \<and>
     (\<forall>m. rack_of m2r' m = rack_of m2r m) \<and>
     fst ` set mf' = fst ` set mf \<union> (\<Union>f\<in>set files. set (GetMachines fs f)) \<and>
     (distinct (map fst mf) \<longrightarrow> distinct (map fst mf')) \<and>
     (distinct (map fst rf) \<longrightarrow> distinct (map fst rf'))"
  using assms
proof (induction files arbitrary: mf rf tot m2r)
  case Nil
  then show ?case by (simp add: total_blocks_def local_blocks_def rack_blocks_def)
next
  case (Cons f files)
  let ?nb = "GetNumBlocks fs f"
  let ?ms = "GetMachines fs f"
  obtain mf1 m2r1 racks where cm: "count_machines ?nb ?ms (mf, m2r, []) = (mf1, m2r1, racks)"
    by (cases "count_machines ?nb ?ms (mf, m2r, [])") auto
  let ?rf1 = "count_racks ?nb racks rf"
  have step: "count_files fs files (mf1, ?rf1, tot + ?nb, m2r1) = (mf', rf', tot', m2r')"
    using Cons.prems(1) cm by (simp only: count_files_Cons prod.case)
  have dms: "distinct ?ms" using Cons.prems(2) by simp
  note M = count_machines_props[OF cm dms]
  have dr: "distinct racks" using M by simp
  note R = count_racks_props[OF dr, of ?nb rf]
  have bound: "tot + ?nb + total_blocks fs files < 2 ^ 32"
    using Cons.prems(3) by (simp add: total_blocks_Cons)
  have small: "tot + ?nb < 2 ^ 32" using bound by simp
  have mf_le: "\<And>m. FindWithDefault mf m 0 \<le> tot" using Cons.prems(4) by simp
  have rf_le: "\<And>r. FindWithDefault rf r 0 \<le> tot" using Cons.prems(5) by simp
  have mod32: "\<And>m. FindWithDefault mf m 0 mod 2 ^ 32 = FindWithDefault mf m 0"
  proof -
    fix m
    have "FindWithDefault mf m 0 < 2 ^ 32" using mf_le[of m] small by simp
    then show "FindWithDefault mf m 0 mod 2 ^ 32 = FindWithDefault mf m 0" by simp
  qed
  have mod64: "\<And>r. (FindWithDefault rf r 0 + ?nb) mod 2 ^ 64 = FindWithDefault rf r 0 + ?nb"
  proof -
    fix r
    have "FindWithDefault rf r 0 + ?nb < 2 ^ 32" using rf_le[of r] small by simp
    also have "(2::nat) ^ 32 < 2 ^ 64" by simp
    finally show "(FindWithDefault rf r 0 + ?nb) mod 2 ^ 64 = FindWithDefault rf r 0 + ?nb"
      by simp
  qed
  have mf1: "\<And>m. FindWithDefault mf1 m 0 =
      FindWithDefault mf m 0 + (if m \<in> set ?ms then ?nb else 0)"
    using M mod32 by simp
  have rf1: "\<And>r. FindWithDefault ?rf1 r 0 =
      FindWithDefault rf r 0 + (if r \<in> rack_of m2r ` set ?ms then ?nb else 0)"
    using R M mod64 by simp
  have racks1: "\<And>m. rack_of m2r1 m = rack_of m2r m" using M by simp
  have p4: "\<forall>m. FindWithDefault mf1 m 0 \<le> tot + ?nb"
  proof
    fix m
    show "FindWithDefault mf1 m 0 \<le> tot + ?nb" using mf1[of m] mf_le[of m] by simp
  qed
  have p5: "\<forall>r. FindWithDefault ?rf1 r 0 \<le> tot + ?nb"
  proof
    fix r
    show "FindWithDefault ?rf1 r 0 \<le> tot + ?nb" using rf1[of r] rf_le[of r] by simp
  qed
  have p2: "\<forall>f\<in>set files. distinct (GetMachines fs f)" using Cons.prems(2) by simp
  note IH = Cons.IH[OF step p2 bound p4 p5]
  have "tot' = tot + total_blocks fs (f # files)"
    using IH by (simp add: total_blocks_Cons)
  moreover have "\<forall>m. FindWithDefault mf' m 0 =
      FindWithDefault mf m 0 + local_blocks fs (f # files) m"
    using IH mf1 by (simp add: local_blocks_Cons)
  moreover have "\<forall>r. FindWithDefault rf' r 0 =
      FindWithDefault rf r 0 + rack_blocks fs m2r (f # files) r"
    using IH rf1 rack_blocks_cong[OF racks1, of fs files]
    by (simp add: rack_blocks_Cons)
  moreover have "\<forall>m. rack_of m2r' m = rack_of m2r m"
    using IH racks1 by simp
  moreover have "fst ` set mf' = fst ` set mf \<union> (\<Union>f\<in>set (f # files). set (GetMachines fs f))"
    using IH M by auto
  moreover have "distinct (map fst mf) \<longrightarrow> distinct (map fst mf')"
    using IH M by simp
  moreover have "distinct (map fst rf) \<longrightarrow> distinct (map fst rf')"
    using IH R by simp
  ultimately show ?case by blast
qed


text \<open>
  The two loops over the frequencies, for maps with no key twice: an entry that passes
  the test of the threshold gets its cost, and no other key is added. Reading
  \<open>rack_frequency\<close> and \<open>machine_to_rack_map_\<close> through \<open>operator[]\<close> changes no value
  that is read afterwards.
\<close>

lemma preferred_machines_loop_Cons:
  "preferred_machines_loop rnd delta core tor tot ((m, n) # es) (pm, rf, m2r) =
     (if double_ge (double_div rnd n tot) delta then
        preferred_machines_loop rnd delta core tor tot es
          (AList.update m
             (of_nat (tot - (FindWithDefault rf (rack_of m2r m) 0 - n) - n) * core
              + of_nat (FindWithDefault rf (rack_of m2r m) 0 - n) * tor) pm,
           snd (subscript rf (rack_of m2r m) 0), snd (subscript m2r m 0))
      else preferred_machines_loop rnd delta core tor tot es (pm, rf, m2r))"
  by (simp add: Let_def case_prod_beta subscript_fst rack_of_def)

lemma preferred_machines_loop_props:
  assumes "preferred_machines_loop rnd delta core tor tot es (pm, rf, m2r) = (pm', rf', m2r')"
    and "distinct (map fst es)"
  shows "(\<forall>m. map_of pm' m =
            (case map_of es m of
               Some n \<Rightarrow>
                 if double_ge (double_div rnd n tot) delta
                 then Some (of_nat (tot - (FindWithDefault rf (rack_of m2r m) 0 - n) - n) * core
                            + of_nat (FindWithDefault rf (rack_of m2r m) 0 - n) * tor)
                 else map_of pm m
             | None \<Rightarrow> map_of pm m)) \<and>
         (\<forall>r. FindWithDefault rf' r 0 = FindWithDefault rf r 0) \<and>
         (\<forall>m. rack_of m2r' m = rack_of m2r m) \<and>
         (distinct (map fst pm) \<longrightarrow> distinct (map fst pm')) \<and>
         (distinct (map fst rf) \<longrightarrow> distinct (map fst rf'))"
  using assms
proof (induction es arbitrary: pm rf m2r)
  case Nil
  then show ?case by simp
next
  case (Cons e es)
  obtain m0 n0 where e: "e = (m0, n0)" by (cases e)
  have d: "distinct (map fst es)" and notin: "m0 \<notin> fst ` set es"
    using Cons.prems(2) e by auto
  have none: "map_of es m0 = None" using notin by (simp add: map_of_eq_None_iff)
  show ?case
  proof (cases "double_ge (double_div rnd n0 tot) delta")
    case True
    let ?c = "of_nat (tot - (FindWithDefault rf (rack_of m2r m0) 0 - n0) - n0) * core
              + of_nat (FindWithDefault rf (rack_of m2r m0) 0 - n0) * tor"
    let ?pm1 = "AList.update m0 ?c pm"
    let ?rf1 = "snd (subscript rf (rack_of m2r m0) 0)"
    let ?m2r1 = "snd (subscript m2r m0 0)"
    have step: "preferred_machines_loop rnd delta core tor tot es (?pm1, ?rf1, ?m2r1)
        = (pm', rf', m2r')"
      using Cons.prems(1) e True by (simp only: preferred_machines_loop_Cons if_True)
    note IH = Cons.IH[OF step d]
    have rf1: "\<And>r. FindWithDefault ?rf1 r 0 = FindWithDefault rf r 0"
      by (rule FindWithDefault_subscript)
    have r1: "\<And>m. rack_of ?m2r1 m = rack_of m2r m" by (rule rack_of_subscript)
    have "\<forall>m. map_of pm' m =
            (case map_of (e # es) m of
               Some n \<Rightarrow>
                 if double_ge (double_div rnd n tot) delta
                 then Some (of_nat (tot - (FindWithDefault rf (rack_of m2r m) 0 - n) - n) * core
                            + of_nat (FindWithDefault rf (rack_of m2r m) 0 - n) * tor)
                 else map_of pm m
             | None \<Rightarrow> map_of pm m)"
      using IH rf1 r1 none True e by (auto simp: update_conv' split: option.splits)
    moreover have "\<forall>r. FindWithDefault rf' r 0 = FindWithDefault rf r 0"
      using IH rf1 by simp
    moreover have "\<forall>m. rack_of m2r' m = rack_of m2r m"
      using IH r1 by simp
    moreover have "distinct (map fst pm) \<longrightarrow> distinct (map fst pm')"
      using IH by (simp add: distinct_update)
    moreover have "distinct (map fst rf) \<longrightarrow> distinct (map fst rf')"
      using IH by (simp add: distinct_subscript)
    ultimately show ?thesis by blast
  next
    case False
    have step: "preferred_machines_loop rnd delta core tor tot es (pm, rf, m2r)
        = (pm', rf', m2r')"
      using Cons.prems(1) e False by (simp only: preferred_machines_loop_Cons if_False)
    note IH = Cons.IH[OF step d]
    have "\<forall>m. map_of pm' m =
            (case map_of (e # es) m of
               Some n \<Rightarrow>
                 if double_ge (double_div rnd n tot) delta
                 then Some (of_nat (tot - (FindWithDefault rf (rack_of m2r m) 0 - n) - n) * core
                            + of_nat (FindWithDefault rf (rack_of m2r m) 0 - n) * tor)
                 else map_of pm m
             | None \<Rightarrow> map_of pm m)"
      using IH none False e by (auto split: option.splits)
    then show ?thesis using IH by blast
  qed
qed

lemma preferred_racks_loop_props:
  assumes "distinct (map fst es)"
  shows "(\<forall>r. map_of (preferred_racks_loop rnd delta core tor tot es pr) r =
            (case map_of es r of
               Some n \<Rightarrow>
                 if double_gt (double_div rnd n tot) delta
                 then Some (of_nat (tot - n) * core + of_nat n * tor)
                 else map_of pr r
             | None \<Rightarrow> map_of pr r)) \<and>
         (distinct (map fst pr) \<longrightarrow>
            distinct (map fst (preferred_racks_loop rnd delta core tor tot es pr)))"
  using assms
proof (induction es arbitrary: pr)
  case Nil
  then show ?case by simp
next
  case (Cons e es)
  obtain r0 n0 where e: "e = (r0, n0)" by (cases e)
  have d: "distinct (map fst es)" and notin: "r0 \<notin> fst ` set es"
    using Cons.prems e by auto
  have none: "map_of es r0 = None" using notin by (simp add: map_of_eq_None_iff)
  show ?case
  proof (cases "double_gt (double_div rnd n0 tot) delta")
    case True
    let ?pr1 = "AList.update r0 (of_nat (tot - n0) * core + of_nat n0 * tor) pr"
    have eq: "preferred_racks_loop rnd delta core tor tot (e # es) pr =
        preferred_racks_loop rnd delta core tor tot es ?pr1"
      using True e by (simp add: Let_def)
    note IH = Cons.IH[OF d, of ?pr1]
    show ?thesis unfolding eq
      using IH none True e by (auto simp: update_conv' distinct_update split: option.splits)
  next
    case False
    have eq: "preferred_racks_loop rnd delta core tor tot (e # es) pr =
        preferred_racks_loop rnd delta core tor tot es pr"
      using False e by simp
    note IH = Cons.IH[OF d, of pr]
    show ?thesis unfolding eq
      using IH none False e by (auto split: option.splits)
  qed
qed


text \<open>
  The counts are ordered: the blocks on a machine are among the blocks in its rack, and
  these among all blocks. So the unsigned subtractions of the code do not go below zero.
\<close>

lemma sum_list_filter_mono:
  fixes f :: "'a \<Rightarrow> nat"
  assumes "\<And>x. x \<in> set xs \<Longrightarrow> P x \<Longrightarrow> Q x"
  shows "sum_list (map f (filter P xs)) \<le> sum_list (map f (filter Q xs))"
  using assms by (induction xs) auto

lemma local_le_rack:
  "local_blocks fs files m \<le> rack_blocks fs m2r files (rack_of m2r m)"
  unfolding local_blocks_def rack_blocks_def
  by (rule sum_list_filter_mono) simp

lemma rack_le_total: "rack_blocks fs m2r files r \<le> total_blocks fs files"
proof -
  have "sum_list (map (GetNumBlocks fs)
          (filter (\<lambda>f. r \<in> rack_of m2r ` set (GetMachines fs f)) files))
        \<le> sum_list (map (GetNumBlocks fs) (filter (\<lambda>f. True) files))"
    by (rule sum_list_filter_mono) simp
  then show ?thesis by (simp add: rack_blocks_def total_blocks_def)
qed

text \<open>A share of zero blocks passes neither test when the threshold is positive (for
  \<open>>=\<close>) or not negative (for \<open>>\<close>), as zero is a \<open>double\<close>: it is not rounded.\<close>

lemma double_ge_zero:
  "rnd 0 = 0 \<Longrightarrow> 0 < delta \<Longrightarrow> \<not> double_ge (double_div rnd 0 tot) delta"
  by (simp add: double_div_def)

lemma double_gt_zero:
  "rnd 0 = 0 \<Longrightarrow> 0 \<le> delta \<Longrightarrow> \<not> double_gt (double_div rnd 0 tot) delta"
  by (simp add: double_div_def)

lemma case_map_of_FindWithDefault:
  assumes "\<not> P 0"
  shows "(case map_of es k of
            Some n \<Rightarrow> if P n then Some (f n) else None
          | None \<Rightarrow> None) =
         (if P (FindWithDefault es k (0::nat)) then Some (f (FindWithDefault es k 0)) else None)"
  using assms by (auto simp: FindWithDefault_def split: option.splits)

text \<open>
  The arithmetic of \<open>Cost_t\<close>: a cost computed with wrap-around is the integer cost
  reduced to 64 bits, and its value is the integer cost itself when that fits.
\<close>

lemma cost_of_int:
  "(of_nat a * c + of_nat b * d :: Cost_t) = of_int (int a * sint c + int b * sint d)"
  by simp

lemma sint_of_int_fits: "fits_Cost_t x \<Longrightarrow> sint (of_int x :: Cost_t) = x"
  by (simp add: fits_Cost_t_def sint_sbintrunc' signed_take_bit_int_eq_self)

text \<open>The three maps of the cost model after \<open>AddTask\<close>.\<close>

lemma AddTask_maps:
  "preferred_machine_map (AddTask rnd t files s) =
     AList.update t
       (fst (preferred_machines_loop rnd (proportion_machine_preferred s) (core_transfer_cost s)
          (tor_transfer_cost s)
          (fst (snd (snd (count_files (filesystem s) files ([], [], 0, machine_to_rack_map s)))))
          (fst (count_files (filesystem s) files ([], [], 0, machine_to_rack_map s)))
          ([], fst (snd (count_files (filesystem s) files ([], [], 0, machine_to_rack_map s))),
           snd (snd (snd (count_files (filesystem s) files ([], [], 0, machine_to_rack_map s)))))))
       (preferred_machine_map s)"
  "preferred_rack_map (AddTask rnd t files s) =
     AList.update t
       (preferred_racks_loop rnd (proportion_rack_preferred s) (core_transfer_cost s)
          (tor_transfer_cost s)
          (fst (snd (snd (count_files (filesystem s) files ([], [], 0, machine_to_rack_map s)))))
          (fst (snd (preferred_machines_loop rnd (proportion_machine_preferred s)
             (core_transfer_cost s) (tor_transfer_cost s)
             (fst (snd (snd (count_files (filesystem s) files ([], [], 0, machine_to_rack_map s)))))
             (fst (count_files (filesystem s) files ([], [], 0, machine_to_rack_map s)))
             ([], fst (snd (count_files (filesystem s) files ([], [], 0, machine_to_rack_map s))),
              snd (snd (snd (count_files (filesystem s) files ([], [], 0, machine_to_rack_map s))))))))
          [])
       (preferred_rack_map s)"
  "cluster_aggregator_cost (AddTask rnd t files s) =
     AList.update t
       (of_nat (fst (snd (snd (count_files (filesystem s) files ([], [], 0, machine_to_rack_map s)))))
        * core_transfer_cost s)
       (cluster_aggregator_cost s)"
  by (simp_all add: AddTask_def BuildTaskFileSet_def ComputeCostsAndPreferredSet_def Let_def
      case_prod_beta subscript_fst FindWithDefault_update)

lemma AddTask_result:
  assumes wf: "\<forall>f\<in>set files. distinct (GetMachines (filesystem s) f)"
    and bound: "total_blocks (filesystem s) files < 2 ^ 32"
    and zero: "rnd 0 = 0"
  shows "\<exists>pm pr.
      map_of (preferred_machine_map (AddTask rnd t files s)) t = Some pm \<and>
      map_of (preferred_rack_map (AddTask rnd t files s)) t = Some pr \<and>
      map_of (cluster_aggregator_cost (AddTask rnd t files s)) t =
        Some (of_int (cluster_cost s files)) \<and>
      distinct (map fst pm) \<and> distinct (map fst pr) \<and>
      fst ` set pm \<subseteq> (\<Union>f\<in>set files. set (GetMachines (filesystem s) f)) \<and>
      (0 < proportion_machine_preferred s \<longrightarrow>
        (\<forall>m. map_of pm m =
          (if double_ge (double_div rnd (local_blocks (filesystem s) files m)
                 (total_blocks (filesystem s) files)) (proportion_machine_preferred s)
           then Some (of_int (machine_cost s files m))
           else None))) \<and>
      (0 \<le> proportion_rack_preferred s \<longrightarrow>
        (\<forall>r. map_of pr r =
          (if double_gt (double_div rnd (rack_blocks (filesystem s) (machine_to_rack_map s) files r)
                 (total_blocks (filesystem s) files)) (proportion_rack_preferred s)
           then Some (of_int (rack_cost s files r))
           else None)))"
proof -
  let ?fs = "filesystem s"
  let ?m2r = "machine_to_rack_map s"
  let ?dm = "proportion_machine_preferred s"
  let ?dr = "proportion_rack_preferred s"
  let ?core = "core_transfer_cost s"
  let ?tor = "tor_transfer_cost s"
  let ?T = "total_blocks ?fs files"
  let ?L = "local_blocks ?fs files"
  let ?R = "rack_blocks ?fs ?m2r files"
  obtain mf rf tot m2r1 where cf: "count_files ?fs files ([], [], 0, ?m2r) = (mf, rf, tot, m2r1)"
    by (cases "count_files ?fs files ([], [], 0, ?m2r)") auto
  obtain pm rf2 m2r2 where
    pl: "preferred_machines_loop rnd ?dm ?core ?tor tot mf ([], rf, m2r1) = (pm, rf2, m2r2)"
    by (cases "preferred_machines_loop rnd ?dm ?core ?tor tot mf ([], rf, m2r1)") auto
  define pr where "pr = preferred_racks_loop rnd ?dr ?core ?tor tot rf2 []"
  have b0: "0 + ?T < 2 ^ 32" using bound by simp
  have z1: "\<forall>m. FindWithDefault ([] :: (ResourceID_t \<times> nat) list) m 0 \<le> (0::nat)"
    by (simp add: FindWithDefault_def)
  have z2: "\<forall>r. FindWithDefault ([] :: (EquivClass_t \<times> nat) list) r 0 \<le> (0::nat)"
    by (simp add: FindWithDefault_def)
  note C = count_files_props[OF cf wf b0 z1 z2]
  have tot: "tot = ?T" using C by simp
  have mfL: "\<And>m. FindWithDefault mf m 0 = ?L m" using C by (simp add: FindWithDefault_def)
  have rfR: "\<And>r. FindWithDefault rf r 0 = ?R r" using C by (simp add: FindWithDefault_def)
  have rk1: "\<And>m. rack_of m2r1 m = rack_of ?m2r m" using C by simp
  have keys_mf: "fst ` set mf = (\<Union>f\<in>set files. set (GetMachines ?fs f))" using C by simp
  have dmf: "distinct (map fst mf)" and drf: "distinct (map fst rf)" using C by simp_all
  note P = preferred_machines_loop_props[OF pl dmf]
  have rf2R: "\<And>r. FindWithDefault rf2 r 0 = ?R r" using P rfR by simp
  have drf2: "distinct (map fst rf2)" using P drf by simp
  have dpm: "distinct (map fst pm)" using P by simp
  note Q = preferred_racks_loop_props[OF drf2, of rnd ?dr ?core ?tor tot "[]"]
  have dpr: "distinct (map fst pr)" using Q by (simp add: pr_def)
  have pm_raw: "\<And>m. map_of pm m =
      (case map_of mf m of
         Some n \<Rightarrow>
           if double_ge (double_div rnd n ?T) ?dm
           then Some (of_nat (?T - (?R (rack_of ?m2r m) - n) - n) * ?core
                      + of_nat (?R (rack_of ?m2r m) - n) * ?tor)
           else None
       | None \<Rightarrow> None)"
    using P rfR rk1 tot by (auto split: option.splits)
  have keys_pm: "fst ` set pm \<subseteq> (\<Union>f\<in>set files. set (GetMachines ?fs f))"
  proof
    fix m assume "m \<in> fst ` set pm"
    then have "map_of pm m \<noteq> None" by (simp add: map_of_eq_None_iff)
    then have "map_of mf m \<noteq> None" using pm_raw[of m] by (auto split: option.splits)
    then have "m \<in> fst ` set mf" by (simp add: map_of_eq_None_iff)
    then show "m \<in> (\<Union>f\<in>set files. set (GetMachines ?fs f))" using keys_mf by simp
  qed
  have pm_eq: "0 < ?dm \<longrightarrow> (\<forall>m. map_of pm m =
      (if double_ge (double_div rnd (?L m) ?T) ?dm
       then Some (of_int (machine_cost s files m))
       else None))"
  proof (intro impI allI)
    fix m
    assume pos: "0 < ?dm"
    have nz: "\<not> double_ge (double_div rnd 0 ?T) ?dm" using zero pos by (rule double_ge_zero)
    have le1: "?L m \<le> ?R (rack_of ?m2r m)" by (rule local_le_rack)
    have le2: "?R (rack_of ?m2r m) \<le> ?T" by (rule rack_le_total)
    have c1: "int (?T - (?R (rack_of ?m2r m) - ?L m) - ?L m) = int ?T - int (?R (rack_of ?m2r m))"
      using le1 le2 by linarith
    have c2: "int (?R (rack_of ?m2r m) - ?L m) = int (?R (rack_of ?m2r m)) - int (?L m)"
      using le1 by linarith
    have w: "of_nat (?T - (?R (rack_of ?m2r m) - ?L m) - ?L m) * ?core
          + of_nat (?R (rack_of ?m2r m) - ?L m) * ?tor = (of_int (machine_cost s files m) :: Cost_t)"
      unfolding machine_cost_def c1[symmetric] c2[symmetric] by (rule cost_of_int)
    have "map_of pm m =
      (if double_ge (double_div rnd (FindWithDefault mf m 0) ?T) ?dm
       then Some (of_nat (?T - (?R (rack_of ?m2r m) - FindWithDefault mf m 0) - FindWithDefault mf m 0) * ?core
                  + of_nat (?R (rack_of ?m2r m) - FindWithDefault mf m 0) * ?tor)
       else None)"
      unfolding pm_raw[of m]
      by (rule case_map_of_FindWithDefault[where P = "\<lambda>n. double_ge (double_div rnd n ?T) ?dm"]) (rule nz)
    then show "map_of pm m =
      (if double_ge (double_div rnd (?L m) ?T) ?dm
       then Some (of_int (machine_cost s files m))
       else None)"
      by (simp only: mfL w)
  qed
  have pr_raw: "\<And>r. map_of pr r =
      (case map_of rf2 r of
         Some n \<Rightarrow>
           if double_gt (double_div rnd n ?T) ?dr
           then Some (of_nat (?T - n) * ?core + of_nat n * ?tor)
           else None
       | None \<Rightarrow> None)"
    using Q tot by (auto simp: pr_def split: option.splits)
  have pr_eq: "0 \<le> ?dr \<longrightarrow> (\<forall>r. map_of pr r =
      (if double_gt (double_div rnd (?R r) ?T) ?dr
       then Some (of_int (rack_cost s files r))
       else None))"
  proof (intro impI allI)
    fix r
    assume pos: "0 \<le> ?dr"
    have nz: "\<not> double_gt (double_div rnd 0 ?T) ?dr" using zero pos by (rule double_gt_zero)
    have le2: "?R r \<le> ?T" by (rule rack_le_total)
    have c1: "int (?T - ?R r) = int ?T - int (?R r)" using le2 by linarith
    have w: "of_nat (?T - ?R r) * ?core + of_nat (?R r) * ?tor
        = (of_int (rack_cost s files r) :: Cost_t)"
      unfolding rack_cost_def c1[symmetric] by (rule cost_of_int)
    have "map_of pr r =
      (if double_gt (double_div rnd (FindWithDefault rf2 r 0) ?T) ?dr
       then Some (of_nat (?T - FindWithDefault rf2 r 0) * ?core + of_nat (FindWithDefault rf2 r 0) * ?tor)
       else None)"
      unfolding pr_raw[of r]
      by (rule case_map_of_FindWithDefault[where P = "\<lambda>n. double_gt (double_div rnd n ?T) ?dr"]) (rule nz)
    then show "map_of pr r =
      (if double_gt (double_div rnd (?R r) ?T) ?dr
       then Some (of_int (rack_cost s files r))
       else None)"
      by (simp only: rf2R w)
  qed
  have m1: "map_of (preferred_machine_map (AddTask rnd t files s)) t = Some pm"
    by (simp add: AddTask_maps cf pl update_conv')
  have m2: "map_of (preferred_rack_map (AddTask rnd t files s)) t = Some pr"
    by (simp add: AddTask_maps cf pl pr_def update_conv')
  have m3: "map_of (cluster_aggregator_cost (AddTask rnd t files s)) t =
      Some (of_int (cluster_cost s files))"
    by (simp add: AddTask_maps cf tot update_conv' cluster_cost_def)
  from m1 m2 m3 dpm dpr keys_pm pm_eq pr_eq show ?thesis by blast
qed




lemma GetTaskPreferenceArcs_Some:
  "map_of (preferred_machine_map s) t = Some pm \<Longrightarrow>
     GetTaskPreferenceArcs t s = Inr (map fst pm)"
  by (simp add: GetTaskPreferenceArcs_def)

lemma TaskToResourceNodeCost_Some:
  "map_of (preferred_machine_map s) t = Some pm \<Longrightarrow> map_of pm m = Some c \<Longrightarrow>
     \<exists>s'. TaskToResourceNodeCost t m s = Inr (c, s')"
  by (simp add: TaskToResourceNodeCost_def case_prod_beta subscript_fst FindWithDefault_def)

lemma distinct_singleton_list: "distinct xs \<Longrightarrow> set xs = {a} \<Longrightarrow> xs = [a]"
proof (cases xs)
  case Nil
  assume "set xs = {a}"
  with Nil show ?thesis by simp
next
  case (Cons x ys)
  assume d: "distinct xs" and s: "set xs = {a}"
  from s Cons have x: "x = a" by auto
  from s Cons have sub: "\<And>y. y \<in> set ys \<Longrightarrow> y = a" by auto
  from d Cons x have notin: "a \<notin> set ys" by simp
  have "ys = []"
  proof (cases ys)
    case Nil
    then show ?thesis .
  next
    case (Cons y zs)
    then have "y \<in> set ys" by simp
    with sub[of y] notin show ?thesis by simp
  qed
  then show ?thesis using Cons x by simp
qed

subsection \<open>The example file systems, evaluated\<close>

lemma example_AddTask_two_racks:
  "preferred_machine_map
     (AddTask (\<lambda>q. q) 1 [1, 2] (example_cost_model example_dfs example_two_racks (1 / 4)))
     = [(1, [(1, 60), (2, 40)])]"
  by (simp add: AddTask_def BuildTaskFileSet_def ComputeCostsAndPreferredSet_def
      example_cost_model_def example_dfs_def example_two_racks_def subscript_def
      FindWithDefault_def double_div_def Let_def)

lemma example_blocks_two_racks:
  "total_blocks example_dfs [1, 2] = 10"
  "local_blocks example_dfs [1, 2] 1 = 4"
  "rack_of example_two_racks 1 = 0"
  "rack_blocks example_dfs example_two_racks [1, 2] 0 = 4"
  by (simp_all add: total_blocks_def local_blocks_def rack_blocks_def rack_of_def
      FindWithDefault_def example_dfs_def example_two_racks_def)

lemma example_blocks_local:
  "total_blocks example_dfs_local [1] = 10"
  "local_blocks example_dfs_local [1] 1 = 10"
  by (simp_all add: total_blocks_def local_blocks_def example_dfs_local_def)

subsection \<open>The claims\<close>



text \<open>
  Costs that do not fit wrap around, in the model as in the program: with a core
  transfer cost of \<open>2 ^ 62\<close>, the cost of the task of the example to rack 0 is
  \<open>6 * 2 ^ 62 + 4\<close> reduced to 64 bits, and its cost to machine 1 is \<open>6 * 2 ^ 62\<close>
  reduced to 64 bits.
\<close>

lemma rack_cost_wraps_around:
  "sint (fst (TaskToEquivClassAggregator 1 0
     (AddTask (\<lambda>q. q) 1 [1, 2]
        ((example_cost_model example_dfs example_two_racks (1 / 4))
           \<lparr>core_transfer_cost := 2 ^ 62\<rparr>)))) = - 9223372036854775804"
  by (simp add: TaskToEquivClassAggregator_def AddTask_def BuildTaskFileSet_def
      ComputeCostsAndPreferredSet_def example_cost_model_def example_dfs_def
      example_two_racks_def subscript_def FindWithDefault_def double_div_def Let_def)

lemma machine_cost_wraps_around:
  "map_sum id (\<lambda>r. sint (fst r)) (TaskToResourceNodeCost 1 1
     (AddTask (\<lambda>q. q) 1 [1, 2]
        ((example_cost_model example_dfs example_two_racks (1 / 4))
           \<lparr>core_transfer_cost := 2 ^ 62\<rparr>))) = Inr (- 9223372036854775808)"
  by (simp add: TaskToResourceNodeCost_def AddTask_def BuildTaskFileSet_def
      ComputeCostsAndPreferredSet_def example_cost_model_def example_dfs_def
      example_two_racks_def subscript_def FindWithDefault_def double_div_def Let_def)

text \<open>
  C2, as stated, fails: with 4 blocks on machine 1 in rack 0 and 6 blocks on machine 2 in
  rack 1, both machines are preferred at the threshold \<open>1 / 4\<close>, and the cost of machine
  1 is \<open>(10 - 4) * 10 = 60\<close>: the blocks of the own rack are charged the rack transfer
  cost and only the 6 blocks outside the rack the core transfer cost. The formula of
  the claim takes the local blocks off the core blocks once more and gives
  \<open>(10 - 4 - 4) * 10 = 20\<close>. Reading the rack blocks of the formula as those not on the
  machine does not help: then it gives \<open>(10 - 0 - 4) * 10 + (0 - 4) * 1 = 56\<close>.
\<close>

theorem machine_cost_counterexample:
  "map_sum id set (GetTaskPreferenceArcs 1
     (AddTask (\<lambda>q. q) 1 [1, 2] (example_cost_model example_dfs example_two_racks (1 / 4))))
     = Inr {1, 2} \<and>
   map_sum id (\<lambda>r. sint (fst r)) (TaskToResourceNodeCost 1 1
     (AddTask (\<lambda>q. q) 1 [1, 2] (example_cost_model example_dfs example_two_racks (1 / 4))))
     = Inr 60 \<and>
   (int (total_blocks example_dfs [1, 2])
      - int (rack_blocks example_dfs example_two_racks [1, 2] (rack_of example_two_racks 1))
      - int (local_blocks example_dfs [1, 2] 1)) * 10
   + (int (rack_blocks example_dfs example_two_racks [1, 2] (rack_of example_two_racks 1))
      - int (local_blocks example_dfs [1, 2] 1)) * 1 = 20 \<and>
   (int (total_blocks example_dfs [1, 2])
      - (int (rack_blocks example_dfs example_two_racks [1, 2] (rack_of example_two_racks 1))
         - int (local_blocks example_dfs [1, 2] 1))
      - int (local_blocks example_dfs [1, 2] 1)) * 10
   + ((int (rack_blocks example_dfs example_two_racks [1, 2] (rack_of example_two_racks 1))
         - int (local_blocks example_dfs [1, 2] 1))
      - int (local_blocks example_dfs [1, 2] 1)) * 1 = 56"
  by (simp add: GetTaskPreferenceArcs_def TaskToResourceNodeCost_def example_AddTask_two_racks
      example_blocks_two_racks subscript_def insert_commute)

text \<open>
  C2, amended. After \<open>AddTask\<close> for a task with the sampled file set \<open>files\<close>, on a file
  system whose machine sets have no repetition, with fewer than \<open>2 ^ 32\<close> blocks in the
  file set, a positive threshold \<open>delta_preferred_machine\<close>, and any rounding of the
  quotient that leaves zero as it is: a machine is among the preference arcs of the task
  if and only if its share of the blocks is at least the threshold, and the cost of the
  task to such a machine is the blocks outside the rack of the machine times the core
  transfer cost plus the blocks in the rack that are not on the machine times the rack
  transfer cost, computed in the 64 bits of a \<open>Cost_t\<close>, and is that number itself
  whenever the number fits a \<open>Cost_t\<close>. When every file of a file set with at least one
  block is on the single machine \<open>A\<close>, the threshold is at most 1 and the rounding
  leaves one as it is, the preference arcs are exactly \<open>[A]\<close> and the cost of the task
  to \<open>A\<close> is 0, whatever the transfer costs are.
\<close>

theorem machine_preference:
  assumes "\<forall>f\<in>set files. distinct (GetMachines (filesystem s) f)"
    and "total_blocks (filesystem s) files < 2 ^ 32"
    and "rnd 0 = 0"
    and "0 < proportion_machine_preferred s"
  shows "(\<exists>arcs. GetTaskPreferenceArcs t (AddTask rnd t files s) = Inr arcs \<and>
            (m \<in> set arcs \<longleftrightarrow>
               double_ge (double_div rnd (local_blocks (filesystem s) files m)
                 (total_blocks (filesystem s) files)) (proportion_machine_preferred s))) \<and>
         (double_ge (double_div rnd (local_blocks (filesystem s) files m)
              (total_blocks (filesystem s) files)) (proportion_machine_preferred s) \<longrightarrow>
            (\<exists>s'. TaskToResourceNodeCost t m (AddTask rnd t files s) =
               Inr (of_int (machine_cost s files m), s'))) \<and>
         (double_ge (double_div rnd (local_blocks (filesystem s) files m)
              (total_blocks (filesystem s) files)) (proportion_machine_preferred s) \<and>
          fits_Cost_t (machine_cost s files m) \<longrightarrow>
            (\<exists>c s'. TaskToResourceNodeCost t m (AddTask rnd t files s) = Inr (c, s') \<and>
               sint c = machine_cost s files m)) \<and>
         ((\<forall>f\<in>set files. GetMachines (filesystem s) f = [A]) \<and>
          0 < total_blocks (filesystem s) files \<and> rnd 1 = 1 \<and>
          proportion_machine_preferred s \<le> 1 \<longrightarrow>
            GetTaskPreferenceArcs t (AddTask rnd t files s) = Inr [A] \<and>
            (\<exists>s'. TaskToResourceNodeCost t A (AddTask rnd t files s) = Inr (0, s')))"
proof -
  let ?fs = "filesystem s"
  let ?m2r = "machine_to_rack_map s"
  let ?dm = "proportion_machine_preferred s"
  let ?T = "total_blocks ?fs files"
  let ?L = "local_blocks ?fs files"
  let ?R = "rack_blocks ?fs ?m2r files"
  let ?cost = "\<lambda>m. (of_int (machine_cost s files m) :: Cost_t)"
  from AddTask_result[where rnd = rnd and t = t, OF assms(1,2,3)] assms(4) obtain pm where
    m1: "map_of (preferred_machine_map (AddTask rnd t files s)) t = Some pm" and
    dpm: "distinct (map fst pm)" and
    keys: "fst ` set pm \<subseteq> (\<Union>f\<in>set files. set (GetMachines ?fs f))" and
    pm: "\<And>m. map_of pm m =
          (if double_ge (double_div rnd (?L m) ?T) ?dm then Some (?cost m) else None)"
    by blast
  have arcs: "GetTaskPreferenceArcs t (AddTask rnd t files s) = Inr (map fst pm)"
    by (rule GetTaskPreferenceArcs_Some[OF m1])
  have mem: "\<And>m. m \<in> set (map fst pm) \<longleftrightarrow> double_ge (double_div rnd (?L m) ?T) ?dm"
  proof -
    fix m
    have "m \<in> set (map fst pm) \<longleftrightarrow> map_of pm m \<noteq> None"
      by (simp add: map_of_eq_None_iff)
    then show "m \<in> set (map fst pm) \<longleftrightarrow> double_ge (double_div rnd (?L m) ?T) ?dm"
      using pm[of m] by simp
  qed
  have part1: "\<exists>arcs. GetTaskPreferenceArcs t (AddTask rnd t files s) = Inr arcs \<and>
            (m \<in> set arcs \<longleftrightarrow> double_ge (double_div rnd (?L m) ?T) ?dm)"
    using arcs mem[of m] by blast
  have cost: "\<exists>s'. TaskToResourceNodeCost t x (AddTask rnd t files s) = Inr (?cost x, s')"
    if "double_ge (double_div rnd (?L x) ?T) ?dm" for x
  proof -
    have "map_of pm x = Some (?cost x)" using pm[of x] that by simp
    from TaskToResourceNodeCost_Some[OF m1 this] show ?thesis .
  qed
  have part2: "double_ge (double_div rnd (?L m) ?T) ?dm \<longrightarrow>
      (\<exists>s'. TaskToResourceNodeCost t m (AddTask rnd t files s) = Inr (?cost m, s'))"
    using cost[of m] by blast
  have part2': "double_ge (double_div rnd (?L m) ?T) ?dm \<and> fits_Cost_t (machine_cost s files m) \<longrightarrow>
      (\<exists>c s'. TaskToResourceNodeCost t m (AddTask rnd t files s) = Inr (c, s') \<and>
         sint c = machine_cost s files m)"
  proof
    assume h: "double_ge (double_div rnd (?L m) ?T) ?dm \<and> fits_Cost_t (machine_cost s files m)"
    then obtain s' where
      "TaskToResourceNodeCost t m (AddTask rnd t files s) = Inr (?cost m, s')"
      using cost[of m] by blast
    moreover have "sint (?cost m) = machine_cost s files m"
      using h by (simp add: sint_of_int_fits)
    ultimately show "\<exists>c s'. TaskToResourceNodeCost t m (AddTask rnd t files s) = Inr (c, s') \<and>
         sint c = machine_cost s files m"
      by blast
  qed
  have part3: "(\<forall>f\<in>set files. GetMachines ?fs f = [A]) \<and> 0 < ?T \<and> rnd 1 = 1 \<and> ?dm \<le> 1 \<longrightarrow>
      GetTaskPreferenceArcs t (AddTask rnd t files s) = Inr [A] \<and>
      (\<exists>s'. TaskToResourceNodeCost t A (AddTask rnd t files s) = Inr (0, s'))"
  proof
    assume h: "(\<forall>f\<in>set files. GetMachines ?fs f = [A]) \<and> 0 < ?T \<and> rnd 1 = 1 \<and> ?dm \<le> 1"
    then have allA: "\<forall>f\<in>set files. GetMachines ?fs f = [A]" and Tpos: "0 < ?T"
      and one: "rnd 1 = 1" and le1: "?dm \<le> 1" by simp_all
    have "filter (\<lambda>f. A \<in> set (GetMachines ?fs f)) files = files"
      using allA by (simp add: filter_id_conv)
    then have LA: "?L A = ?T" by (simp add: local_blocks_def total_blocks_def)
    have "?L A \<le> ?R (rack_of ?m2r A)" by (rule local_le_rack)
    moreover have "?R (rack_of ?m2r A) \<le> ?T" by (rule rack_le_total)
    ultimately have RA: "?R (rack_of ?m2r A) = ?T" using LA by simp
    have test: "double_ge (double_div rnd (?L A) ?T) ?dm"
      using Tpos one le1 by (simp add: LA double_div_def)
    have costA: "?cost A = 0" by (simp add: machine_cost_def LA RA)
    have "A \<in> set (map fst pm)" using mem[of A] test by simp
    moreover have "set (map fst pm) \<subseteq> {A}"
    proof
      fix x
      assume "x \<in> set (map fst pm)"
      then have "x \<in> (\<Union>f\<in>set files. set (GetMachines ?fs f))" using keys by auto
      then obtain f where "f \<in> set files" and "x \<in> set (GetMachines ?fs f)" by blast
      with allA show "x \<in> {A}" by simp
    qed
    ultimately have "set (map fst pm) = {A}" by auto
    with dpm have "map fst pm = [A]" by (rule distinct_singleton_list)
    moreover have "\<exists>s'. TaskToResourceNodeCost t A (AddTask rnd t files s) = Inr (0, s')"
      using cost[OF test] costA by simp
    ultimately show "GetTaskPreferenceArcs t (AddTask rnd t files s) = Inr [A] \<and>
      (\<exists>s'. TaskToResourceNodeCost t A (AddTask rnd t files s) = Inr (0, s'))"
      using arcs by simp
  qed
  from part1 part2 part2' part3 show ?thesis by blast
qed

theorem machine_preference_witness:
  "GetMachines example_dfs_local 1 = [1] \<and>
   total_blocks example_dfs_local [1] = 10 \<and>
   local_blocks example_dfs_local [1] 1 = 10 \<and>
   machine_cost (example_cost_model example_dfs_local example_one_rack (1 / 2)) [1] 1 = 0 \<and>
   GetTaskPreferenceArcs 1
     (AddTask (\<lambda>q. q) 1 [1] (example_cost_model example_dfs_local example_one_rack (1 / 2)))
     = Inr [1] \<and>
   (\<exists>s'. TaskToResourceNodeCost 1 1
      (AddTask (\<lambda>q. q) 1 [1] (example_cost_model example_dfs_local example_one_rack (1 / 2)))
      = Inr (0, s')) \<and>
   (\<exists>c s'. TaskToResourceNodeCost 1 1
      (AddTask (\<lambda>q. q) 1 [1] (example_cost_model example_dfs_local example_one_rack (1 / 2)))
      = Inr (c, s') \<and> sint c = 0)"
proof -
  let ?s = "example_cost_model example_dfs_local example_one_rack (1 / 2)"
  have h1: "\<forall>f\<in>set [1]. distinct (GetMachines (filesystem ?s) f)"
    by (simp add: example_cost_model_def example_dfs_local_def)
  have h2: "total_blocks (filesystem ?s) [1] < 2 ^ 32"
    by (simp add: example_cost_model_def example_blocks_local)
  have h0: "(\<lambda>q :: rat. q) 0 = 0"
    by simp
  have h3: "0 < proportion_machine_preferred ?s"
    by (simp add: example_cost_model_def)
  have h4: "(\<forall>f\<in>set [1]. GetMachines (filesystem ?s) f = [1]) \<and>
      0 < total_blocks (filesystem ?s) [1] \<and> (\<lambda>q :: rat. q) 1 = 1 \<and>
      proportion_machine_preferred ?s \<le> 1"
  proof -
    have a: "\<forall>f\<in>set [1]. GetMachines (filesystem ?s) f = [1]"
      by (simp add: example_cost_model_def example_dfs_local_def)
    have b: "0 < total_blocks (filesystem ?s) [1]"
      by (simp add: example_cost_model_def example_blocks_local)
    have c: "proportion_machine_preferred ?s \<le> 1"
      by (simp add: example_cost_model_def)
    from a b c show ?thesis by simp
  qed
  have h5: "double_ge (double_div (\<lambda>q. q) (local_blocks (filesystem ?s) [1] 1)
      (total_blocks (filesystem ?s) [1])) (proportion_machine_preferred ?s)"
    by (simp add: example_cost_model_def example_blocks_local double_div_def)
  have mc: "machine_cost ?s [1] 1 = 0"
    by (simp add: machine_cost_def example_cost_model_def total_blocks_def rack_blocks_def
        local_blocks_def rack_of_def FindWithDefault_def example_dfs_local_def
        example_one_rack_def)
  have h6: "fits_Cost_t (machine_cost ?s [1] 1)"
    by (simp add: mc fits_Cost_t_def)
  from machine_preference [where rnd = "\<lambda>q. q" and t = 1 and m = 1 and A = 1, OF h1 h2 h0 h3]
    h4 h5 h6
  have "GetTaskPreferenceArcs 1 (AddTask (\<lambda>q. q) 1 [1] ?s) = Inr [1] \<and>
      (\<exists>s'. TaskToResourceNodeCost 1 1 (AddTask (\<lambda>q. q) 1 [1] ?s) = Inr (0, s')) \<and>
      (\<exists>c s'. TaskToResourceNodeCost 1 1 (AddTask (\<lambda>q. q) 1 [1] ?s) = Inr (c, s') \<and> sint c = 0)"
    unfolding mc by blast
  moreover have "GetMachines example_dfs_local 1 = [1]"
    by (simp add: example_dfs_local_def)
  ultimately show ?thesis
    using mc by (simp add: example_blocks_local)
qed

lemma map_of_RemoveMachine:
  "map_of (map (\<lambda>mapping. (fst mapping, AList.delete m (snd mapping))) pmm) t =
     map_option (AList.delete m) (map_of pmm t)"
  by (induction pmm) auto

text \<open>
  C8. After \<open>RemoveMachine\<close> of the cost model for a machine, the preference arcs of
  every task that has any are the arcs it had without that machine, so the machine
  is not among them; for a task that the cost model does not know, the query fails
  as before.
\<close>

theorem remove_machine_drops_arcs:
  "GetTaskPreferenceArcs t (CostModel_RemoveMachine dfs_remove m s) =
     (case GetTaskPreferenceArcs t s of
        Inl e \<Rightarrow> Inl e
      | Inr arcs \<Rightarrow> Inr (removeAll m arcs)) \<and>
   (GetTaskPreferenceArcs t (CostModel_RemoveMachine dfs_remove m s) = Inr arcs \<longrightarrow>
      m \<notin> set arcs)"
  by (auto simp: GetTaskPreferenceArcs_def CostModel_RemoveMachine_def map_of_RemoveMachine
      delete_keys split: option.splits)

theorem remove_machine_drops_arcs_witness:
  "GetTaskPreferenceArcs 1
     (AddTask (\<lambda>q. q) 1 [1, 2] (example_cost_model example_dfs example_two_racks (1 / 4)))
     = Inr [1, 2] \<and>
   GetTaskPreferenceArcs 1
     (CostModel_RemoveMachine (\<lambda>res_id dfs. dfs) 1
        (AddTask (\<lambda>q. q) 1 [1, 2] (example_cost_model example_dfs example_two_racks (1 / 4))))
     = Inr [2] \<and>
   (1 :: ResourceID_t) \<notin> set [2]"
  using remove_machine_drops_arcs
    [of 1 "\<lambda>res_id dfs. dfs" 1
        "AddTask (\<lambda>q. q) 1 [1, 2] (example_cost_model example_dfs example_two_racks (1 / 4))" "[2]"]
  by (simp add: GetTaskPreferenceArcs_def example_AddTask_two_racks)

end
